theory Spec2Isabelle
  imports Complex_Main
begin

section \<open>Numeric values and array primitives\<close>

text \<open>
  The arrays of \<^verbatim>\<open>lbl/science/general.py\<close> hold double-precision numbers. A value is
  modelled as a real number or one of the three special values; arithmetic on finite values
  is exact (rounding, overflow and the sign of zero are outside the model), and the special
  values propagate as in IEEE-754 arithmetic, which is what \<^verbatim>\<open>np.isfinite\<close>,
  \<^verbatim>\<open>nansum\<close> and the comparisons of the source depend on.
\<close>

datatype npfloat = Fin real | PInf | NInf | NaN

datatype error = ValueError | IndexError | ZeroDivisionError | OverflowError

fun isfinite :: "npfloat \<Rightarrow> bool" where
  "isfinite (Fin x) = True"
| "isfinite PInf = False"
| "isfinite NInf = False"
| "isfinite NaN = False"

fun isnan :: "npfloat \<Rightarrow> bool" where
  "isnan NaN = True"
| "isnan (Fin x) = False"
| "isnan PInf = False"
| "isnan NInf = False"

fun fneg :: "npfloat \<Rightarrow> npfloat" where
  "fneg (Fin x) = Fin (- x)"
| "fneg PInf = NInf"
| "fneg NInf = PInf"
| "fneg NaN = NaN"

fun fadd :: "npfloat \<Rightarrow> npfloat \<Rightarrow> npfloat" where
  "fadd (Fin x) (Fin y) = Fin (x + y)"
| "fadd (Fin x) PInf = PInf"
| "fadd (Fin x) NInf = NInf"
| "fadd PInf (Fin y) = PInf"
| "fadd PInf PInf = PInf"
| "fadd PInf NInf = NaN"
| "fadd NInf (Fin y) = NInf"
| "fadd NInf NInf = NInf"
| "fadd NInf PInf = NaN"
| "fadd NaN b = NaN"
| "fadd a NaN = NaN"

definition fsub :: "npfloat \<Rightarrow> npfloat \<Rightarrow> npfloat" where
  "fsub a b = fadd a (fneg b)"

text \<open>The product of an infinity and a finite value takes the sign of the product;
  infinity times zero is not a number.\<close>

definition inf_signed :: "bool \<Rightarrow> npfloat" where
  "inf_signed positive = (if positive then PInf else NInf)"

fun fmul :: "npfloat \<Rightarrow> npfloat \<Rightarrow> npfloat" where
  "fmul (Fin x) (Fin y) = Fin (x * y)"
| "fmul (Fin x) PInf = (if x = 0 then NaN else inf_signed (0 < x))"
| "fmul (Fin x) NInf = (if x = 0 then NaN else inf_signed (x < 0))"
| "fmul PInf (Fin y) = (if y = 0 then NaN else inf_signed (0 < y))"
| "fmul NInf (Fin y) = (if y = 0 then NaN else inf_signed (y < 0))"
| "fmul PInf PInf = PInf"
| "fmul PInf NInf = NInf"
| "fmul NInf PInf = NInf"
| "fmul NInf NInf = PInf"
| "fmul NaN b = NaN"
| "fmul a NaN = NaN"

text \<open>Division as numpy does it under \<^verbatim>\<open>warnings.catch_warnings\<close>: a finite non-zero
  value over zero is an infinity, zero over zero is not a number, nothing raises.\<close>

fun fdiv :: "npfloat \<Rightarrow> npfloat \<Rightarrow> npfloat" where
  "fdiv (Fin x) (Fin y) =
     (if y \<noteq> 0 then Fin (x / y) else if x = 0 then NaN else inf_signed (0 < x))"
| "fdiv (Fin x) PInf = Fin 0"
| "fdiv (Fin x) NInf = Fin 0"
| "fdiv PInf (Fin y) = inf_signed (0 \<le> y)"
| "fdiv NInf (Fin y) = inf_signed (y < 0)"
| "fdiv PInf PInf = NaN"
| "fdiv PInf NInf = NaN"
| "fdiv NInf PInf = NaN"
| "fdiv NInf NInf = NaN"
| "fdiv NaN b = NaN"
| "fdiv a NaN = NaN"

fun fsqrt :: "npfloat \<Rightarrow> npfloat" where
  "fsqrt (Fin x) = (if x < 0 then NaN else Fin (sqrt x))"
| "fsqrt PInf = PInf"
| "fsqrt NInf = NaN"
| "fsqrt NaN = NaN"

fun fabs :: "npfloat \<Rightarrow> npfloat" where
  "fabs (Fin x) = Fin \<bar>x\<bar>"
| "fabs PInf = PInf"
| "fabs NInf = PInf"
| "fabs NaN = NaN"

text \<open>Comparisons: every comparison with NaN is false.\<close>

fun flt :: "npfloat \<Rightarrow> npfloat \<Rightarrow> bool" where
  "flt (Fin x) (Fin y) = (x < y)"
| "flt (Fin x) PInf = True"
| "flt NInf (Fin y) = True"
| "flt NInf PInf = True"
| "flt a b = False"

definition fgt :: "npfloat \<Rightarrow> npfloat \<Rightarrow> bool" where
  "fgt a b = flt b a"

definition fsquare :: "npfloat \<Rightarrow> npfloat" where
  \<comment> \<open>\<^verbatim>\<open>x ** 2\<close>\<close>
  "fsquare a = fmul a a"

text \<open>\<^verbatim>\<open>np.sum\<close> of a one-dimensional array.\<close>

definition np_sum :: "npfloat list \<Rightarrow> npfloat" where
  "np_sum xs = foldl fadd (Fin 0) xs"

text \<open>Modelled from the spec: \<^verbatim>\<open>mp.nansum\<close> lives in \<^verbatim>\<open>lbl.core.math\<close>, which is not among
  the source files. Section 7 of the specification requires sums that skip the invalid
  entries; as in \<^verbatim>\<open>np.nansum\<close>, the entries that are not a number count as zero.\<close>

definition nansum :: "npfloat list \<Rightarrow> npfloat" where
  "nansum xs = np_sum (filter (\<lambda>x. \<not> isnan x) xs)"

text \<open>Element-wise binary operations on one-dimensional arrays follow numpy's broadcasting:
  equal lengths combine pointwise, a length-one operand is stretched, anything else raises
  \<^verbatim>\<open>ValueError\<close>.\<close>

definition np_binop :: "('a \<Rightarrow> 'b \<Rightarrow> 'c) \<Rightarrow> 'a list \<Rightarrow> 'b list \<Rightarrow> error + 'c list" where
  "np_binop f xs ys =
     (if length xs = length ys then Inr (map2 f xs ys)
      else if length xs = 1 then Inr (map (f (hd xs)) ys)
      else if length ys = 1 then Inr (map (\<lambda>x. f x (hd ys)) xs)
      else Inl ValueError)"

text \<open>Sequencing of computations that may raise.\<close>

definition bindr :: "error + 'a \<Rightarrow> ('a \<Rightarrow> error + 'b) \<Rightarrow> error + 'b" where
  "bindr m f = (case m of Inl e \<Rightarrow> Inl e | Inr a \<Rightarrow> f a)"

section \<open>The Bouchy estimator\<close>

text \<open>
  \<^verbatim>\<open>bouchy_equation_line(vector, diff_vector, mean_rms)\<close>: \<^verbatim>\<open>mean_rms\<close> is a scalar
  (the mean RMS of the line), the two vectors are one-dimensional arrays.
\<close>

definition bouchy_equation_line ::
  "npfloat list \<Rightarrow> npfloat list \<Rightarrow> npfloat \<Rightarrow> error + (npfloat \<times> npfloat)" where
  "bouchy_equation_line vector diff_vector mean_rms =
     (let rms_pix = map (\<lambda>v. fdiv mean_rms v) vector;
          rms_value = fdiv (Fin 1) (fsqrt (np_sum (map (\<lambda>p. fdiv (Fin 1) (fsquare p)) rms_pix)))
      in bindr (np_binop fmul diff_vector vector) (\<lambda>prod.
           Inr (fdiv (nansum prod) (nansum (map fsquare vector)), rms_value)))"

section \<open>Arrays, loops and the absent collaborators\<close>

text \<open>A \<^verbatim>\<open>for\<close> loop whose body may raise: the state is threaded through the items in
  order and the first error ends the loop.\<close>

fun for_loop :: "('s \<Rightarrow> 'a \<Rightarrow> error + 's) \<Rightarrow> 's \<Rightarrow> 'a list \<Rightarrow> error + 's" where
  "for_loop body s [] = Inr s"
| "for_loop body s (x # xs) = bindr (body s x) (\<lambda>s'. for_loop body s' xs)"

text \<open>\<^verbatim>\<open>np.min\<close> and \<^verbatim>\<open>np.max\<close> of a one-dimensional array: an empty array raises
  \<^verbatim>\<open>ValueError\<close>, an entry that is not a number makes the result not a number.\<close>

definition np_min :: "npfloat list \<Rightarrow> error + npfloat" where
  "np_min xs =
     (if xs = [] then Inl ValueError
      else if list_ex isnan xs then Inr NaN
      else Inr (foldl (\<lambda>m x. if flt x m then x else m) (hd xs) (tl xs)))"

definition np_max :: "npfloat list \<Rightarrow> error + npfloat" where
  "np_max xs =
     (if xs = [] then Inl ValueError
      else if list_ex isnan xs then Inr NaN
      else Inr (foldl (\<lambda>m x. if flt m x then x else m) (hd xs) (tl xs)))"

text \<open>Indexing an array with a boolean mask of the same length, and \<^verbatim>\<open>np.sum\<close> of a
  boolean mask.\<close>

definition np_select :: "bool list \<Rightarrow> 'a list \<Rightarrow> 'a list" where
  "np_select good xs = map snd (filter fst (zip good xs))"

definition count_true :: "bool list \<Rightarrow> nat" where
  "count_true good = length (filter (\<lambda>b. b) good)"

text \<open>\<^verbatim>\<open>np.arange(n)\<close> as an array of numbers.\<close>

definition arange :: "nat \<Rightarrow> npfloat list" where
  "arange n = map (\<lambda>i. Fin (real i)) [0..<n]"

text \<open>The number of columns of a two-dimensional array held as the list of its rows.\<close>

definition shape1 :: "'a list list \<Rightarrow> nat" where
  "shape1 a = (if a = [] then 0 else length (hd a))"

text \<open>
  \<^verbatim>\<open>mp.iuv_spline\<close> (module \<^verbatim>\<open>lbl.core.math\<close>) is not among the source files. It is a
  parameter of every function that calls it: given the abscissae, the ordinates, the degree
  \<open>k\<close> and the extrapolation mode \<open>ext\<close>, building the interpolant may raise, and a built
  interpolant maps an array of query points to an array of values.
\<close>

type_synonym spline_builder =
  "npfloat list \<Rightarrow> npfloat list \<Rightarrow> nat \<Rightarrow> nat \<Rightarrow> error + (npfloat list \<Rightarrow> npfloat list)"

section \<open>The reference table: \<^verbatim>\<open>make_ref_dict\<close>\<close>

record mask_row =
  ll_mask_s :: npfloat
  w_mask :: npfloat

record ref_dict =
  ORDER :: "nat list"
  WAVE_START :: "npfloat list"
  WAVE_END :: "npfloat list"
  WEIGHT_LINE :: "npfloat list"
  XPIX :: "npfloat list"
  RMSRATIO :: "npfloat list"
  NPIXLINE :: "int list"
  MEANXPIX :: "npfloat list"
  MEANBLAZE :: "npfloat list"
  AMP_CONTINUUM :: "npfloat list"
  CHI2 :: "npfloat list"
  CHI2_VALID_CDF :: "npfloat list"

text \<open>The five lists the build path grows, order after order.\<close>

record line_lists =
  order_list :: "nat list"
  wave_start_list :: "npfloat list"
  wave_end_list :: "npfloat list"
  weight_line_list :: "npfloat list"
  xpix_list :: "npfloat list"

text \<open>The body of the loop over the orders (build path). The default degree and
  extrapolation mode of the interpolant are \<open>k = 3\<close> and \<open>ext = 0\<close>.\<close>

definition add_order_lines ::
  "spline_builder \<Rightarrow> mask_row list \<Rightarrow> npfloat list list \<Rightarrow> line_lists \<Rightarrow> nat
   \<Rightarrow> error + line_lists" where
  "add_order_lines iuv_spline mask_table wavegrid acc order_num =
     bindr (np_min (wavegrid ! order_num)) (\<lambda>min_wave.
     bindr (np_max (wavegrid ! order_num)) (\<lambda>max_wave.
       let good = map (\<lambda>m. fgt (ll_mask_s m) min_wave \<and> flt (ll_mask_s m) max_wave) mask_table
       in if count_true good > 0 then
            let centers = np_select good (map ll_mask_s mask_table);
                weights = np_select good (map w_mask mask_table);
                xgrid = arange (length (wavegrid ! order_num))
            in bindr (iuv_spline (wavegrid ! order_num) xgrid 3 0) (\<lambda>xspline.
                 Inr \<lparr> order_list = order_list acc @ replicate (count_true good - 1) order_num,
                       wave_start_list = wave_start_list acc @ butlast centers,
                       wave_end_list = wave_end_list acc @ tl centers,
                       weight_line_list = weight_line_list acc @ butlast weights,
                       xpix_list = xpix_list acc @ xspline (butlast centers) \<rparr>)
          else Inr acc))"

text \<open>
  \<^verbatim>\<open>make_ref_dict\<close>. Reading the table from disk (load path), the instrument's
  \<^verbatim>\<open>get_wave_solution\<close> and the interpolant are collaborators and enter as parameters:
  \<open>loaded\<close> is the table as read from \<^verbatim>\<open>reftable_file\<close>. Writing the built table to disk
  and the log line have no effect on the returned value and are left out.
\<close>

definition make_ref_dict ::
  "spline_builder \<Rightarrow> (string \<Rightarrow> npfloat list list) \<Rightarrow> ref_dict \<Rightarrow> bool \<Rightarrow> string list
   \<Rightarrow> mask_row list \<Rightarrow> error + ref_dict" where
  "make_ref_dict iuv_spline get_wave_solution loaded reftable_exists science_files mask_table =
     (if reftable_exists then Inr loaded
      else if science_files = [] then Inl IndexError
      else
        let wavegrid = get_wave_solution (hd science_files);
            empty = \<lparr> order_list = [], wave_start_list = [], wave_end_list = [],
                      weight_line_list = [], xpix_list = [] \<rparr>
        in bindr (for_loop (add_order_lines iuv_spline mask_table wavegrid) empty
                    [0..<length wavegrid]) (\<lambda>acc.
             let xpix = xpix_list acc;
                 zeros = replicate (length xpix) (Fin 0)
             in Inr \<lparr> ORDER = order_list acc,
                      WAVE_START = wave_start_list acc,
                      WAVE_END = wave_end_list acc,
                      WEIGHT_LINE = weight_line_list acc,
                      XPIX = xpix,
                      RMSRATIO = zeros,
                      NPIXLINE = replicate (length xpix) 0,
                      MEANXPIX = zeros,
                      MEANBLAZE = zeros,
                      AMP_CONTINUUM = zeros,
                      CHI2 = zeros,
                      CHI2_VALID_CDF = zeros \<rparr>))"

text \<open>The mask entries of one order that the build path keeps: the rows whose center lies
  strictly between the smallest and the largest wavelength of the order.\<close>

definition surviving :: "mask_row list \<Rightarrow> npfloat list \<Rightarrow> mask_row list" where
  "surviving mask_table wave_row =
     filter (\<lambda>m. fgt (ll_mask_s m) (projr (np_min wave_row)) \<and>
                 flt (ll_mask_s m) (projr (np_max wave_row))) mask_table"

section \<open>The noise model: \<^verbatim>\<open>estimate_noise_model\<close>\<close>

text \<open>A Python slice \<^verbatim>\<open>a[istart:iend]\<close> with \<open>0 \<le> istart\<close> and \<open>0 \<le> iend\<close>.\<close>

definition slice :: "'a list \<Rightarrow> nat \<Rightarrow> nat \<Rightarrow> 'a list" where
  "slice a istart iend = take (iend - istart) (drop istart a)"

text \<open>\<^verbatim>\<open>np.arange(0, stop, step)\<close> for a positive step, as indices.\<close>

definition arange_step :: "nat \<Rightarrow> nat \<Rightarrow> nat list" where
  "arange_step stop step = map (\<lambda>i. i * step) [0..<(stop + step - 1) div step]"

text \<open>The body of the loop over the boxes of one order: the box around \<^verbatim>\<open>indices[it]\<close> is
  clipped to the order, its sigma is stored, and every zero of the sigma array is replaced
  by NaN. \<^verbatim>\<open>mp.estimate_sigma\<close> is absent from the source files and is a parameter.\<close>

definition sigma_step ::
  "(npfloat list \<Rightarrow> npfloat) \<Rightarrow> nat \<Rightarrow> nat \<Rightarrow> npfloat list \<Rightarrow> nat list
   \<Rightarrow> npfloat list \<Rightarrow> nat \<Rightarrow> npfloat list" where
  "sigma_step estimate_sigma npoints ncols residuals indices sigma it =
     (let istart = int (indices ! it) - int npoints;
          iend = int (indices ! it) + int npoints;
          istart = (if istart < 0 then 0 else istart);
          iend = (if iend > int ncols then int ncols else iend);
          sigma = sigma[it := estimate_sigma (slice residuals (nat istart) (nat iend))]
      in map (\<lambda>s. if s = Fin 0 then NaN else s) sigma)"

definition box_sigmas ::
  "(npfloat list \<Rightarrow> npfloat) \<Rightarrow> nat \<Rightarrow> nat \<Rightarrow> npfloat list \<Rightarrow> npfloat list" where
  "box_sigmas estimate_sigma npoints ncols residuals =
     (let indices = arange_step ncols npoints
      in foldl (sigma_step estimate_sigma npoints ncols residuals indices)
           (replicate (length indices) (Fin 0)) [0..<length indices])"

text \<open>Assigning a one-dimensional array to a row of \<open>width\<close> entries: the lengths must
  agree, or the value has length one and is repeated.\<close>

definition assign_row :: "nat \<Rightarrow> npfloat list \<Rightarrow> error + npfloat list" where
  "assign_row width v =
     (if length v = width then Inr v
      else if length v = 1 then Inr (replicate width (hd v))
      else Inl ValueError)"

text \<open>The body of the loop over the orders: \<open>rms\<close> is the array being filled.\<close>

definition noise_order ::
  "(npfloat list \<Rightarrow> npfloat) \<Rightarrow> spline_builder \<Rightarrow> nat \<Rightarrow> npfloat list list
   \<Rightarrow> npfloat list list \<Rightarrow> npfloat list list \<Rightarrow> nat \<Rightarrow> error + npfloat list list" where
  "noise_order estimate_sigma iuv_spline npoints spectrum model rms order_num =
     (if length model \<le> order_num then Inl IndexError
      else bindr (np_binop fsub (spectrum ! order_num) (model ! order_num)) (\<lambda>residuals.
        if npoints = 0 then Inl ZeroDivisionError
        else
          let indices = arange_step (shape1 model) npoints;
              sigma = box_sigmas estimate_sigma npoints (shape1 model) residuals;
              good = map isfinite sigma
          in if count_true good > 2 then
               bindr (iuv_spline (np_select good (map (\<lambda>i. Fin (real i)) indices))
                        (np_select good sigma) 1 3) (\<lambda>rms_spline.
               bindr (assign_row (length (rms ! order_num)) (rms_spline (arange (shape1 model))))
                 (\<lambda>row. Inr (rms[order_num := row])))
             else
               bindr (assign_row (length (rms ! order_num)) (replicate (shape1 model) NaN))
                 (\<lambda>row. Inr (rms[order_num := row]))))"

definition estimate_noise_model ::
  "(npfloat list \<Rightarrow> npfloat) \<Rightarrow> spline_builder \<Rightarrow> npfloat list list \<Rightarrow> npfloat list list
   \<Rightarrow> nat \<Rightarrow> error + npfloat list list" where
  "estimate_noise_model estimate_sigma iuv_spline spectrum model npoints =
     for_loop (noise_order estimate_sigma iuv_spline npoints spectrum model)
       (map (\<lambda>row. replicate (length row) (Fin 0)) spectrum) [0..<length spectrum]"

text \<open>The sigma of the box around pixel \<open>idx\<close>, a zero sigma counting as not a number: what
  the loop above leaves in the sigma array for that box (lemma \<open>box_sigmas_eq\<close>).\<close>

definition box_sigma :: "(npfloat list \<Rightarrow> npfloat) \<Rightarrow> nat \<Rightarrow> nat \<Rightarrow> npfloat list \<Rightarrow> nat \<Rightarrow> npfloat" where
  "box_sigma es npoints ncols residuals idx =
     (let s = es (slice residuals (idx - npoints) (min ncols (idx + npoints)))
      in if s = Fin 0 then NaN else s)"

section \<open>Python integers and indices\<close>

text \<open>\<^verbatim>\<open>int(x)\<close> of a float truncates towards zero; it raises \<^verbatim>\<open>ValueError\<close> on NaN and
  \<^verbatim>\<open>OverflowError\<close> on an infinity.\<close>

fun py_int :: "npfloat \<Rightarrow> error + int" where
  "py_int (Fin x) = Inr (if 0 \<le> x then \<lfloor>x\<rfloor> else \<lceil>x\<rceil>)"
| "py_int NaN = Inl ValueError"
| "py_int PInf = Inl OverflowError"
| "py_int NInf = Inl OverflowError"

fun np_floor :: "npfloat \<Rightarrow> npfloat" where
  "np_floor (Fin x) = Fin (of_int \<lfloor>x\<rfloor>)"
| "np_floor a = a"

fun np_ceil :: "npfloat \<Rightarrow> npfloat" where
  "np_ceil (Fin x) = Fin (of_int \<lceil>x\<rceil>)"
| "np_ceil a = a"

text \<open>Reading and writing one entry of an array at a Python index \<open>i\<close>: for an array
  of \<open>n\<close> entries the valid indices are \<open>-n \<le> i < n\<close>, index \<open>i\<close> denotes entry
  \<open>i mod n\<close>, and any other index raises \<^verbatim>\<open>IndexError\<close>.\<close>

definition py_get :: "'a list \<Rightarrow> int \<Rightarrow> error + 'a" where
  "py_get xs i =
     (if - int (length xs) \<le> i \<and> i < int (length xs)
      then Inr (xs ! nat (i mod int (length xs)))
      else Inl IndexError)"

definition py_set :: "'a list \<Rightarrow> int \<Rightarrow> 'a \<Rightarrow> error + 'a list" where
  "py_set xs i v =
     (if - int (length xs) \<le> i \<and> i < int (length xs)
      then Inr (xs[nat (i mod int (length xs)) := v])
      else Inl IndexError)"

text \<open>The same for an index that is a loop counter or an order number (never negative).\<close>

definition get_at :: "'a list \<Rightarrow> nat \<Rightarrow> error + 'a" where
  "get_at xs i = (if i < length xs then Inr (xs ! i) else Inl IndexError)"

definition set_at :: "'a list \<Rightarrow> nat \<Rightarrow> 'a \<Rightarrow> error + 'a list" where
  "set_at xs i v = (if i < length xs then Inr (xs[i := v]) else Inl IndexError)"

text \<open>A Python slice \<^verbatim>\<open>a[start:stop]\<close> with integer bounds, \<open>0 \<le> start\<close>.\<close>

definition py_slice :: "'a list \<Rightarrow> int \<Rightarrow> int \<Rightarrow> 'a list" where
  "py_slice a start stop =
     (let n = int (length a); e = (if stop < 0 then max 0 (stop + n) else stop)
      in slice a (nat start) (nat e))"

section \<open>The collaborators and the parameters of \<^verbatim>\<open>compute_rv\<close>\<close>

text \<open>
  The functions of \<^verbatim>\<open>lbl.core.math\<close> that \<^verbatim>\<open>compute_rv\<close> calls, and \<^verbatim>\<open>scipy\<close>'s
  chi-square distribution, are not among the source files; they are taken as parameters,
  gathered in one record. Two blocks of the source that consist of calls to them are
  parameters as well: \<^verbatim>\<open>rough_ccf_rv\<close> (a non-linear least-squares fit by \<^verbatim>\<open>scipy\<close>), and
  the block of \<^verbatim>\<open>compute_rv\<close> that evaluates the template splines on the shifted
  wavelength grid and scales them (\<open>update_models\<close>: from the iteration number, the trial
  velocity and the science data to the model and its three derivatives).
\<close>

record model_set =
  model_arr :: "npfloat list list"
  dmodel_arr :: "npfloat list list"
  ddmodel_arr :: "npfloat list list"
  dddmodel_arr :: "npfloat list list"

record collab =
  lowpassfilter :: "npfloat list \<Rightarrow> int \<Rightarrow> npfloat list"
  nanmedian :: "npfloat list \<Rightarrow> npfloat"
  estimate_sigma :: "npfloat list \<Rightarrow> npfloat"
  nanstd :: "npfloat list \<Rightarrow> npfloat"
  iuv_spline :: spline_builder
  doppler_shift :: "npfloat list list \<Rightarrow> npfloat \<Rightarrow> npfloat list list"
  odd_ratio_mean :: "npfloat list \<Rightarrow> npfloat list \<Rightarrow> npfloat \<times> npfloat"
  rough_ccf_rv ::
    "npfloat list list \<Rightarrow> npfloat list list \<Rightarrow> npfloat list \<Rightarrow> npfloat list \<Rightarrow> npfloat \<times> npfloat"
  update_models :: "nat \<Rightarrow> npfloat \<Rightarrow> npfloat list list \<Rightarrow> model_set"
  chi2_cdf :: "npfloat \<Rightarrow> int \<Rightarrow> npfloat"

text \<open>The entries of \<^verbatim>\<open>inst.params\<close> that \<^verbatim>\<open>compute_rv\<close> reads (the plot orders are left
  out with the plots).\<close>

record params =
  USE_NOISE_MODEL :: bool
  HP_WIDTH :: npfloat
  OBJECT_SCIENCE :: string
  COMPUTE_RV_N_ITERATIONS :: nat
  COMPUTE_LINE_MIN_PIX_WIDTH :: int
  COMPUTE_LINE_NSIG_THRES :: npfloat
  COMPUTE_RV_BULK_ERROR_CONVERGENCE :: npfloat
  COMPUTE_RV_MAX_N_GOOD_ITERS :: int

definition speed_of_light_ms :: real where
  "speed_of_light_ms = 299792458"

section \<open>The velocity scale and the high-pass of the science flux\<close>

text \<open>\<^verbatim>\<open>np.gradient\<close> of a one-dimensional array with unit spacing: central differences
  inside, one-sided differences at both ends; fewer than two entries raise.\<close>

definition np_gradient :: "npfloat list \<Rightarrow> error + npfloat list" where
  "np_gradient f =
     (let n = length f
      in if n < 2 then Inl ValueError
         else Inr (map (\<lambda>i. if i = 0 then fsub (f ! 1) (f ! 0)
                             else if i = n - 1 then fsub (f ! (n - 1)) (f ! (n - 2))
                             else fdiv (fsub (f ! (i + 1)) (f ! (i - 1))) (Fin 2)) [0..<n]))"

definition get_velo_scale :: "collab \<Rightarrow> npfloat list \<Rightarrow> npfloat \<Rightarrow> error + int" where
  "get_velo_scale mp wave_vector hp_width =
     bindr (np_gradient wave_vector) (\<lambda>dwave.
       let dvelo = fdiv (Fin 1)
             (nanmedian mp (map (\<lambda>(w, d). fdiv (fdiv w d) (Fin speed_of_light_ms))
                (zip wave_vector dwave)))
       in bindr (py_int (fdiv hp_width dvelo)) (\<lambda>width.
            Inr (if width mod 2 = 0 then width + 1 else width)))"

text \<open>The in-place \<^verbatim>\<open>a -= b\<close> on a row: \<open>b\<close> must have the length of \<open>a\<close> or length one.\<close>

definition inplace_sub :: "npfloat list \<Rightarrow> npfloat list \<Rightarrow> error + npfloat list" where
  "inplace_sub a b =
     (if length b = length a then Inr (map2 fsub a b)
      else if length b = 1 then Inr (map (\<lambda>x. fsub x (hd b)) a)
      else Inl ValueError)"

text \<open>The body of the loop of \<^verbatim>\<open>compute_rv\<close> that high-passes the science data, order by
  order, and the loop.\<close>

definition highpass_order ::
  "collab \<Rightarrow> npfloat \<Rightarrow> npfloat list list \<Rightarrow> npfloat list list \<Rightarrow> nat
   \<Rightarrow> error + npfloat list list" where
  "highpass_order mp hp_width wavegrid sci_data order_num =
     bindr (get_at wavegrid order_num) (\<lambda>wave_ord.
     bindr (get_velo_scale mp wave_ord hp_width) (\<lambda>width.
     bindr (inplace_sub (sci_data ! order_num) (lowpassfilter mp wave_ord width)) (\<lambda>row.
       Inr (sci_data[order_num := row]))))"

definition highpass_science ::
  "collab \<Rightarrow> npfloat \<Rightarrow> npfloat list list \<Rightarrow> npfloat list list \<Rightarrow> error + npfloat list list" where
  "highpass_science mp hp_width wavegrid sci_data =
     for_loop (highpass_order mp hp_width wavegrid) sci_data [0..<length sci_data]"

section \<open>The first velocity estimate\<close>

text \<open>\<^verbatim>\<open>np.argmin\<close>: the first index of the smallest entry; the first NaN wins when there
  is one; an empty array raises.\<close>

definition np_argmin :: "npfloat list \<Rightarrow> error + nat" where
  "np_argmin xs =
     (if xs = [] then Inl ValueError
      else if list_ex isnan xs then Inr (length (takeWhile (\<lambda>x. \<not> isnan x) xs))
      else Inr (fst (foldl (\<lambda>(bi, bv) (i, v). if flt v bv then (i, v) else (bi, bv))
                  (0, hd xs) (zip [1..<length xs] (tl xs)))))"

text \<open>The seed taken from the archive of earlier exposures (\<^verbatim>\<open>reset_rv\<close> false).\<close>

definition archive_seed :: "npfloat \<Rightarrow> npfloat list \<Rightarrow> npfloat list \<Rightarrow> error + npfloat" where
  "archive_seed mjdate mjdate_all systemic_all =
     bindr (np_argmin (map (\<lambda>m. fsub mjdate m) mjdate_all)) (\<lambda>closest.
       get_at systemic_all closest)"

text \<open>\<^verbatim>\<open>'FP' in object_science\<close>.\<close>

definition contains_FP :: "string \<Rightarrow> bool" where
  "contains_FP s = list_ex (\<lambda>i. take 2 (drop i s) = ''FP'') [0..<length s]"

text \<open>The first estimate of the velocity and of the CCF width: \<open>ccf_ewidth\<close> is
  \<open>None\<close> when the caller did not set it.\<close>

definition first_estimate ::
  "collab \<Rightarrow> params \<Rightarrow> bool \<Rightarrow> npfloat option \<Rightarrow> npfloat list list \<Rightarrow> npfloat list list
   \<Rightarrow> ref_dict \<Rightarrow> npfloat \<Rightarrow> npfloat list \<Rightarrow> npfloat list
   \<Rightarrow> error + (npfloat \<times> npfloat option)" where
  "first_estimate mp p reset_rv ccf_ewidth wavegrid sci_data ref_table mjdate mjdate_all systemic_all =
     (if reset_rv then
        (if \<not> contains_FP (OBJECT_SCIENCE p) then
           (let (sys_rv, ewidth) = rough_ccf_rv mp wavegrid sci_data (WAVE_START ref_table)
                                     (WEIGHT_LINE ref_table)
            in Inr (sys_rv, (case ccf_ewidth of None \<Rightarrow> Some ewidth | Some w \<Rightarrow> Some w)))
         else Inr (Fin 0, Some (Fin 0)))
      else bindr (archive_seed mjdate mjdate_all systemic_all) (\<lambda>sys_rv.
             Inr (sys_rv, ccf_ewidth)))"

section \<open>The line-by-line fit of one iteration\<close>

text \<open>What the loop over the lines reads and writes: the keep mask, the six arrays of
  shifts and uncertainties, the shifted wavelength grid of this iteration (the source
  assigns into one of its rows while building the weights), and the reference table, whose
  diagnostic columns are filled line by line.\<close>

record fit_state =
  mask_keep :: "bool list"
  dv :: "npfloat list"
  dvrms :: "npfloat list"
  ddv :: "npfloat list"
  ddvrms :: "npfloat list"
  dddv :: "npfloat list"
  dddvrms :: "npfloat list"
  nwavegrid :: "npfloat list list"
  ref_table :: ref_dict

text \<open>What the loop over the lines only reads.\<close>

record line_env =
  sci_data_env :: "npfloat list list"
  rms_env :: "npfloat list list"
  models_env :: model_set
  blaze_env :: "npfloat list list"
  wave2pixlist :: "(npfloat list \<Rightarrow> npfloat list) list"
  min_line_width :: int

text \<open>The pixel window of a line: \<^verbatim>\<open>x_start, x_end = wave2pix([wave_start, wave_end])\<close>,
  rounded down and up.\<close>

definition line_window ::
  "(npfloat list \<Rightarrow> npfloat list) \<Rightarrow> npfloat \<Rightarrow> npfloat \<Rightarrow> error + (int \<times> int)" where
  "line_window wave2pix wave_start wave_end =
     (case wave2pix [wave_start, wave_end] of
        [a, b] \<Rightarrow> bindr (py_int (np_floor a)) (\<lambda>x_start.
                  bindr (py_int (np_ceil b)) (\<lambda>x_end. Inr (x_start, x_end)))
      | _ \<Rightarrow> Inl ValueError)"

text \<open>
  The weights at the edge of the window. The chained assignment
  \<^verbatim>\<open>wavediff = ww_ord[x_start + 1] = ww_ord[x_start]\<close> gives the value of
  \<^verbatim>\<open>ww_ord[x_start]\<close> to \<^verbatim>\<open>wavediff\<close> and stores it in \<^verbatim>\<open>ww_ord[x_start + 1]\<close>; both
  branches assign to \<^verbatim>\<open>weight_mask[0]\<close>. The result is the mask and the row of the
  wavelength grid as the block leaves it.
\<close>

definition build_weight_mask ::
  "npfloat list \<Rightarrow> npfloat \<Rightarrow> npfloat \<Rightarrow> int \<Rightarrow> int \<Rightarrow> error + (npfloat list \<times> npfloat list)" where
  "build_weight_mask ww_ord wave_start wave_end x_start x_end =
     (if x_end - x_start + 1 < 0 then Inl ValueError
      else
        let weight_mask = replicate (nat (x_end - x_start + 1)) (Fin 1)
        in bindr (py_get ww_ord x_start) (\<lambda>w0.
           bindr (if flt w0 wave_start then
                    bindr (py_get ww_ord (x_start + 1)) (\<lambda>w1.
                      let refdiff = fsub w1 wave_start;
                          wavediff = w0
                      in bindr (py_set ww_ord (x_start + 1) w0) (\<lambda>ww_ord.
                         bindr (py_set weight_mask 0 (fdiv refdiff wavediff)) (\<lambda>weight_mask.
                           Inr (weight_mask, ww_ord))))
                  else Inr (weight_mask, ww_ord)) (\<lambda>(weight_mask, ww_ord).
           bindr (py_get ww_ord (x_end + 1)) (\<lambda>w_next.
             if fgt w_next wave_end then
               bindr (py_get ww_ord x_end) (\<lambda>w_last.
                 let refdiff = fsub w_last wave_end;
                     wavediff = fsub w_next w_last
                 in bindr (py_set weight_mask 0 (fsub (Fin 1) (fdiv refdiff wavediff)))
                      (\<lambda>weight_mask. Inr (weight_mask, ww_ord)))
             else Inr (weight_mask, ww_ord)))))"

text \<open>The fit of one line once its window and weights are known, and the assignments of
  its results, in the order of the source: the outcome of the Bouchy equation for the first
  derivative goes to \<open>dv\<close> and \<open>dvrms\<close>, the outcome for the second derivative to
  \<open>ddv\<close> and \<open>ddvrms\<close>, and the outcome for the third derivative again to \<open>ddv\<close> and
  \<open>ddvrms\<close>.\<close>

definition fit_line ::
  "collab \<Rightarrow> fit_state \<Rightarrow> nat \<Rightarrow> int \<Rightarrow> int \<Rightarrow> npfloat list \<Rightarrow> npfloat list \<Rightarrow> npfloat list
   \<Rightarrow> npfloat list \<Rightarrow> npfloat list \<Rightarrow> npfloat list \<Rightarrow> npfloat list \<Rightarrow> npfloat list
   \<Rightarrow> error + fit_state" where
  "fit_line mp st line_it x_start x_end weight_mask sci_ord rms_ord model_ord dmodel_ord
      ddmodel_ord dddmodel_ord blaze_ord =
     (let xpix = map (\<lambda>i. Fin (of_int (x_start + int i))) [0..<length weight_mask]
      in bindr (np_binop fmul weight_mask xpix) (\<lambda>wx.
         let mean_xpix = fdiv (nansum wx) (nansum weight_mask)
         in bindr (py_get blaze_ord ((x_start + x_end) div 2)) (\<lambda>mean_blaze.
         bindr (set_at (MEANXPIX (ref_table st)) line_it mean_xpix) (\<lambda>meanxpix.
         bindr (set_at (MEANBLAZE (ref_table st)) line_it mean_blaze) (\<lambda>meanblaze.
         bindr (np_binop fmul (py_slice dmodel_ord x_start (x_end + 1)) weight_mask) (\<lambda>d_seg.
         bindr (np_binop fmul (py_slice ddmodel_ord x_start (x_end + 1)) weight_mask) (\<lambda>dd_seg.
         bindr (np_binop fmul (py_slice dddmodel_ord x_start (x_end + 1)) weight_mask) (\<lambda>ddd_seg.
         bindr (np_binop fsub (py_slice sci_ord x_start (x_end + 1))
                  (py_slice model_ord x_start (x_end + 1))) (\<lambda>resid.
         bindr (np_binop fmul resid weight_mask) (\<lambda>diff_seg.
         let sum_weight_mask = nansum weight_mask
         in bindr (np_binop fmul (py_slice rms_ord x_start (x_end + 1)) weight_mask) (\<lambda>wrms.
         let sum_rms = nansum wrms;
             mean_rms = fdiv sum_rms sum_weight_mask
         in bindr (bouchy_equation_line d_seg diff_seg mean_rms) (\<lambda>bout.
         bindr (set_at (dv st) line_it (fst bout)) (\<lambda>dv1.
         bindr (set_at (dvrms st) line_it (snd bout)) (\<lambda>dvrms1.
         bindr (bouchy_equation_line dd_seg diff_seg mean_rms) (\<lambda>bout.
         bindr (set_at (ddv st) line_it (fst bout)) (\<lambda>ddv1.
         bindr (set_at (ddvrms st) line_it (snd bout)) (\<lambda>ddvrms1.
         bindr (bouchy_equation_line ddd_seg diff_seg mean_rms) (\<lambda>bout.
         bindr (set_at ddv1 line_it (fst bout)) (\<lambda>ddv2.
         bindr (set_at ddvrms1 line_it (snd bout)) (\<lambda>ddvrms2.
         bindr (set_at (RMSRATIO (ref_table st)) line_it
                  (fdiv (nanstd mp diff_seg) mean_rms)) (\<lambda>rmsratio.
         bindr (set_at (NPIXLINE (ref_table st)) line_it (int (length diff_seg))) (\<lambda>npixline.
         bindr (set_at (CHI2 (ref_table st)) line_it
                  (nansum (map (\<lambda>x. fsquare (fdiv x mean_rms)) diff_seg))) (\<lambda>chi2.
           Inr (st \<lparr> dv := dv1, dvrms := dvrms1, ddv := ddv2, ddvrms := ddvrms2,
                     ref_table := (ref_table st) \<lparr> MEANXPIX := meanxpix, MEANBLAZE := meanblaze,
                        RMSRATIO := rmsratio, NPIXLINE := npixline, CHI2 := chi2 \<rparr> \<rparr>)
         )))))))))))))))))))))))"

text \<open>The body of the loop over the lines in iteration number \<open>iteration\<close> (counted
  from zero, as \<^verbatim>\<open>range\<close> does).\<close>

definition line_step ::
  "collab \<Rightarrow> line_env \<Rightarrow> nat \<Rightarrow> fit_state \<Rightarrow> nat \<Rightarrow> error + fit_state" where
  "line_step mp env iteration st line_it =
     bindr (get_at (ORDER (ref_table st)) line_it) (\<lambda>order_num.
       if iteration \<noteq> 1 \<and> \<not> (mask_keep st ! line_it) then Inr st
       else
         bindr (get_at (nwavegrid st) order_num) (\<lambda>ww_ord.
         bindr (get_at (sci_data_env env) order_num) (\<lambda>sci_ord.
         bindr (get_at (wave2pixlist env) order_num) (\<lambda>wave2pix.
         bindr (get_at (rms_env env) order_num) (\<lambda>rms_ord.
         bindr (get_at (model_arr (models_env env)) order_num) (\<lambda>model_ord.
         bindr (get_at (dmodel_arr (models_env env)) order_num) (\<lambda>dmodel_ord.
         bindr (get_at (ddmodel_arr (models_env env)) order_num) (\<lambda>ddmodel_ord.
         bindr (get_at (dddmodel_arr (models_env env)) order_num) (\<lambda>dddmodel_ord.
         bindr (get_at (blaze_env env) order_num) (\<lambda>blaze_ord.
         bindr (get_at (WAVE_START (ref_table st)) line_it) (\<lambda>wave_start.
         bindr (get_at (WAVE_END (ref_table st)) line_it) (\<lambda>wave_end.
         bindr (line_window wave2pix wave_start wave_end) (\<lambda>(x_start, x_end).
           let st = (if x_end - x_start < min_line_width env
                     then st \<lparr> mask_keep := (mask_keep st)[line_it := False] \<rparr> else st)
           in if x_start < 0 then Inr st
              else if x_end > int (length ww_ord) - 2 then Inr st
              else
                bindr (build_weight_mask ww_ord wave_start wave_end x_start x_end)
                  (\<lambda>(weight_mask, ww_ord).
                    fit_line mp (st \<lparr> nwavegrid := (nwavegrid st)[order_num := ww_ord] \<rparr>)
                      line_it x_start x_end weight_mask sci_ord rms_ord model_ord dmodel_ord
                      ddmodel_ord dddmodel_ord blaze_ord))))))))))))))"

section \<open>The iterations of \<^verbatim>\<open>compute_rv\<close>\<close>

record rv_state =
  fit :: fit_state
  sys_rv :: npfloat
  rv_final :: "npfloat list"
  num_to_converge :: nat
  stddev_nsig :: npfloat
  rms :: "npfloat list list"

text \<open>The list of interpolants from the shifted wavelength of each order to its pixels.\<close>

definition build_wave2pixlist ::
  "collab \<Rightarrow> npfloat list list \<Rightarrow> npfloat list list \<Rightarrow> npfloat list
   \<Rightarrow> error + (npfloat list \<Rightarrow> npfloat list) list" where
  "build_wave2pixlist mp wavegrid nwave xpix =
     for_loop (\<lambda>splines order_num.
         bindr (get_at nwave order_num) (\<lambda>row.
         bindr (iuv_spline mp row xpix 3 0) (\<lambda>spl. Inr (splines @ [spl]))))
       [] [0..<length wavegrid]"

text \<open>
  The end of one pass of the iteration loop, after the loop over the lines has left the fit
  \<open>fs\<close>: the spread of the shifts in units of their uncertainties, the velocity update
  and the convergence check. The result is the state after the pass, and whether the check
  ends the loop.
\<close>

definition velocity_update ::
  "collab \<Rightarrow> params \<Rightarrow> npfloat \<Rightarrow> rv_state \<Rightarrow> npfloat list list \<Rightarrow> fit_state
   \<Rightarrow> error + (rv_state \<times> bool)" where
  "velocity_update mp p berv st rms_now fs =
     bindr (np_binop fdiv (dv fs) (dvrms fs)) (\<lambda>nsig.
       let nsig = filter isfinite nsig;
           nsig = filter (\<lambda>x. flt (fabs x) (COMPUTE_LINE_NSIG_THRES p)) nsig;
           sigma = estimate_sigma mp nsig;
           (rv_mean, bulk_error) = odd_ratio_mean mp (dv fs) (dvrms fs)
       in Inr (\<lparr> fit = fs,
                 sys_rv = fadd (sys_rv st) rv_mean,
                 rv_final = map (\<lambda>d. fsub (fadd d (sys_rv st)) berv) (dv fs),
                 num_to_converge = num_to_converge st + 1,
                 stddev_nsig = sigma,
                 rms = rms_now \<rparr>,
               flt (fabs rv_mean) (fmul (COMPUTE_RV_BULK_ERROR_CONVERGENCE p) bulk_error)))"

text \<open>
  One pass of the iteration loop. The times and the log lines are left out, and so is the
  dictionary of the debug plot.
\<close>

definition iteration_body ::
  "collab \<Rightarrow> params \<Rightarrow> npfloat list list \<Rightarrow> npfloat list list \<Rightarrow> npfloat list list \<Rightarrow> npfloat
   \<Rightarrow> nat \<Rightarrow> rv_state \<Rightarrow> error + (rv_state \<times> bool)" where
  "iteration_body mp p wavegrid sci_data blaze berv iteration st =
     (let ms = update_models mp iteration (sys_rv st) sci_data
      in bindr (if \<not> USE_NOISE_MODEL p
                then estimate_noise_model (estimate_sigma mp) (iuv_spline mp) sci_data
                       (model_arr ms) 100
                else Inr (rms st)) (\<lambda>rms_now.
         let nwave = doppler_shift mp wavegrid (fneg (sys_rv st));
             xpix = arange (shape1 (model_arr ms))
         in bindr (build_wave2pixlist mp wavegrid nwave xpix) (\<lambda>w2p.
            let env = \<lparr> sci_data_env = sci_data, rms_env = rms_now, models_env = ms,
                        blaze_env = blaze, wave2pixlist = w2p,
                        min_line_width = COMPUTE_LINE_MIN_PIX_WIDTH p \<rparr>
            in bindr (for_loop (line_step mp env iteration) ((fit st) \<lparr> nwavegrid := nwave \<rparr>)
                        [0..<length (ORDER (ref_table (fit st)))])
                 (velocity_update mp p berv st rms_now))))"

text \<open>The loop \<^verbatim>\<open>for iteration in range(compute_rv_n_iters)\<close> with its \<^verbatim>\<open>break\<close>.\<close>

fun iterate ::
  "(nat \<Rightarrow> rv_state \<Rightarrow> error + (rv_state \<times> bool)) \<Rightarrow> rv_state \<Rightarrow> nat list \<Rightarrow> error + rv_state" where
  "iterate body st [] = Inr st"
| "iterate body st (iteration # rest) =
     bindr (body iteration st) (\<lambda>(st', stop). if stop then Inr st' else iterate body st' rest)"

section \<open>\<^verbatim>\<open>compute_rv\<close>\<close>

record rv_table = ref_dict +
  RV :: "npfloat list"
  DVRMS :: "npfloat list"
  DDV :: "npfloat list"
  DDVRMS :: "npfloat list"
  DDDV :: "npfloat list"
  DDDVRMS :: "npfloat list"

record outputs =
  SYSTEMIC_ALL :: "npfloat list"
  MJDATE_ALL :: "npfloat list"
  RESET_RV :: bool
  NUM_ITERATIONS :: nat
  SYSTEMIC_VELOCITY :: npfloat
  OUT_RMSRATIO :: npfloat
  CCF_EW :: "npfloat option"
  OUT_HP_WIDTH :: npfloat

text \<open>The state before the first iteration: every line kept, every shift NaN.\<close>

definition initial_state :: "ref_dict \<Rightarrow> npfloat list list \<Rightarrow> npfloat \<Rightarrow> rv_state" where
  "initial_state tbl sci_data v =
     (let nans = replicate (length (WAVE_START tbl)) NaN
      in \<lparr> fit = \<lparr> mask_keep = replicate (length (ORDER tbl)) True,
                    dv = nans, dvrms = nans, ddv = nans, ddvrms = nans, dddv = nans,
                    dddvrms = nans, nwavegrid = [], ref_table = tbl \<rparr>,
            sys_rv = v, rv_final = nans, num_to_converge = 0, stddev_nsig = NaN,
            rms = map (\<lambda>row. replicate (length row) (Fin 0)) sci_data \<rparr>)"

text \<open>
  \<^verbatim>\<open>compute_rv\<close>. The header enters through the two values read from it: \<open>mjdate\<close>
  (the mid-exposure time) and \<open>berv\<close>; \<open>wavegrid\<close> is the instrument's wavelength
  solution for the exposure. The result is the updated reference table and the dictionary
  of outputs (without the duration, which is read from the clock).
\<close>

definition compute_rv ::
  "collab \<Rightarrow> params \<Rightarrow> nat \<Rightarrow> npfloat list list \<Rightarrow> npfloat \<Rightarrow> npfloat \<Rightarrow> npfloat list list
   \<Rightarrow> ref_dict \<Rightarrow> npfloat list list \<Rightarrow> npfloat list \<Rightarrow> npfloat list \<Rightarrow> npfloat option \<Rightarrow> bool
   \<Rightarrow> error + (rv_table \<times> outputs)" where
  "compute_rv mp p sci_iteration sci_data mjdate berv wavegrid tbl blaze systemic_all mjdate_all
      ccf_ewidth reset_rv =
     (let hp_width = fmul (HP_WIDTH p) (Fin 1000)
      in bindr (highpass_science mp hp_width wavegrid sci_data) (\<lambda>sci_data.
         bindr (first_estimate mp p reset_rv ccf_ewidth wavegrid sci_data tbl mjdate mjdate_all
                  systemic_all) (\<lambda>(v, ccf_ewidth).
         bindr (iterate (iteration_body mp p wavegrid sci_data blaze berv)
                  (initial_state tbl sci_data v) [0..<COMPUTE_RV_N_ITERATIONS p]) (\<lambda>st.
         bindr (np_binop (\<lambda>c n. fsub (Fin 1) (chi2_cdf mp c n))
                  (CHI2 (ref_table (fit st))) (NPIXLINE (ref_table (fit st)))) (\<lambda>cdf.
         bindr (set_at systemic_all sci_iteration (fsub (sys_rv st) berv)) (\<lambda>systemic_all.
         bindr (set_at mjdate_all sci_iteration mjdate) (\<lambda>mjdate_all.
           Inr (ref_dict.extend ((ref_table (fit st)) \<lparr> CHI2_VALID_CDF := cdf \<rparr>)
                  (rv_table.fields (map fneg (rv_final st)) (dvrms (fit st)) (ddv (fit st))
                     (ddvrms (fit st)) (dddv (fit st)) (dddvrms (fit st))),
                \<lparr> SYSTEMIC_ALL = systemic_all,
                  MJDATE_ALL = mjdate_all,
                  RESET_RV = (int (num_to_converge st) \<ge> COMPUTE_RV_MAX_N_GOOD_ITERS p),
                  NUM_ITERATIONS = num_to_converge st,
                  SYSTEMIC_VELOCITY = sys_rv st,
                  OUT_RMSRATIO = stddev_nsig st,
                  CCF_EW = ccf_ewidth,
                  OUT_HP_WIDTH = hp_width \<rparr>))))))))"

section \<open>A small exposure\<close>

text \<open>One order of six pixels and one reference line, with simple stand-ins for the
  collaborators: a low-pass filter that returns the mean of its input, the middle entry as
  median, the sum of the absolute values as sigma, the straight line through the first two
  points as interpolant, the classical Doppler formula, the plain mean with unit error as
  robust mean, and a template model that does not depend on the velocity.\<close>

definition two_point_line :: "npfloat list \<Rightarrow> npfloat list \<Rightarrow> npfloat list \<Rightarrow> npfloat list" where
  "two_point_line x y q =
     map (\<lambda>w. fadd (y ! 0) (fmul (fsub w (x ! 0))
                  (fdiv (fsub (y ! 1) (y ! 0)) (fsub (x ! 1) (x ! 0))))) q"

definition ex_models :: model_set where
  "ex_models = \<lparr> model_arr = [[Fin 0, Fin 1, Fin 3, Fin 1, Fin 0, Fin 0]],
                 dmodel_arr = [[Fin 0, Fin 1, Fin 2, Fin 1, Fin 0, Fin 0]],
                 ddmodel_arr = [[Fin 0, Fin 2, Fin 1, Fin 2, Fin 0, Fin 0]],
                 dddmodel_arr = [[Fin 0, Fin 1, Fin 2, Fin 2, Fin 0, Fin 0]] \<rparr>"

definition ex_mp :: collab where
  "ex_mp = \<lparr> lowpassfilter = (\<lambda>v w. replicate (length v) (fdiv (np_sum v) (Fin (real (length v))))),
             nanmedian = (\<lambda>xs. xs ! (length xs div 2)),
             estimate_sigma = (\<lambda>xs. np_sum (map fabs xs)),
             nanstd = (\<lambda>xs. Fin 1),
             iuv_spline = (\<lambda>x y k e. Inr (two_point_line x y)),
             doppler_shift = (\<lambda>w v. map (map (\<lambda>x. fmul x (fadd (Fin 1) (fdiv v (Fin speed_of_light_ms))))) w),
             odd_ratio_mean = (\<lambda>v e. (fdiv (np_sum v) (Fin (real (length v))), Fin 1)),
             rough_ccf_rv = (\<lambda>w s c l. (Fin 0, Fin 1)),
             update_models = (\<lambda>i v s. ex_models),
             chi2_cdf = (\<lambda>c n. Fin 0) \<rparr>"

definition ex_p :: params where
  "ex_p = \<lparr> USE_NOISE_MODEL = False, HP_WIDTH = Fin 500, OBJECT_SCIENCE = ''FP'',
            COMPUTE_RV_N_ITERATIONS = 3, COMPUTE_LINE_MIN_PIX_WIDTH = 5,
            COMPUTE_LINE_NSIG_THRES = Fin 8, COMPUTE_RV_BULK_ERROR_CONVERGENCE = Fin (1/10),
            COMPUTE_RV_MAX_N_GOOD_ITERS = 1 \<rparr>"

definition ex_tbl :: ref_dict where
  "ex_tbl = \<lparr> ORDER = [0], WAVE_START = [Fin 110], WAVE_END = [Fin 130], WEIGHT_LINE = [Fin 1],
       XPIX = [Fin 1], RMSRATIO = [Fin 0], NPIXLINE = [0], MEANXPIX = [Fin 0],
       MEANBLAZE = [Fin 0], AMP_CONTINUUM = [Fin 0], CHI2 = [Fin 0], CHI2_VALID_CDF = [Fin 0] \<rparr>"

definition ex_wave :: "npfloat list list" where
  "ex_wave = [[Fin 100, Fin 110, Fin 120, Fin 130, Fin 140, Fin 150]]"

definition ex_sci :: "npfloat list list" where
  "ex_sci = [[Fin 125, Fin 126, Fin (1281/10), Fin 126, Fin 125, Fin 125]]"

definition ex_blaze :: "npfloat list list" where
  "ex_blaze = [[Fin 1, Fin 1, Fin 1, Fin 1, Fin 1, Fin 1]]"

text \<open>The science data of the exposure after the high-pass of \<^verbatim>\<open>compute_rv\<close>, and what
  the loop over the lines reads in the first pass.\<close>

definition ex_hp :: "npfloat list list" where
  "ex_hp = [[Fin 0, Fin 1, Fin (31/10), Fin 1, Fin 0, Fin 0]]"

definition ex_env :: line_env where
  "ex_env = \<lparr> sci_data_env = ex_hp, rms_env = [[NaN, NaN, NaN, NaN, NaN, NaN]],
              models_env = ex_models, blaze_env = ex_blaze,
              wave2pixlist = [two_point_line (hd ex_wave) (arange 6)], min_line_width = 5 \<rparr>"

definition ex_fit :: "bool \<Rightarrow> npfloat \<Rightarrow> npfloat \<Rightarrow> fit_state" where
  "ex_fit keep v e = \<lparr> mask_keep = [keep], dv = [v], dvrms = [e], ddv = [NaN], ddvrms = [NaN],
       dddv = [NaN], dddvrms = [NaN], nwavegrid = ex_wave, ref_table = ex_tbl \<rparr>"

definition ex_tbl1 :: ref_dict where
  "ex_tbl1 = ex_tbl \<lparr> RMSRATIO := [PInf], NPIXLINE := [3], MEANXPIX := [Fin 2],
                      MEANBLAZE := [Fin 1], CHI2 := [PInf] \<rparr>"

definition ex_fitted :: fit_state where
  "ex_fitted = (ex_fit False (Fin (1/30)) (Fin 0)) \<lparr> ddv := [Fin (1/45)], ddvrms := [Fin 0],
                  ref_table := ex_tbl1 \<rparr>"

definition ex_state :: "fit_state \<Rightarrow> npfloat \<Rightarrow> nat \<Rightarrow> rv_state" where
  "ex_state fs v n = \<lparr> fit = fs, sys_rv = v, rv_final = [v], num_to_converge = n,
       stddev_nsig = Fin 0, rms = [[NaN, NaN, NaN, NaN, NaN, NaN]] \<rparr>"

section \<open>Notions used to state the properties\<close>

text \<open>Two fit states agree on everything a fit of line \<open>l\<close> must not touch: the
  third-order arrays, the geometry columns of the reference table, and the entries of the
  four arrays of first- and second-order results at every other line.\<close>

definition same_but_line :: "nat \<Rightarrow> fit_state \<Rightarrow> fit_state \<Rightarrow> bool" where
  "same_but_line l st st' \<longleftrightarrow>
     dddv st' = dddv st \<and> dddvrms st' = dddvrms st
     \<and> ORDER (ref_table st') = ORDER (ref_table st)
     \<and> WAVE_START (ref_table st') = WAVE_START (ref_table st)
     \<and> WAVE_END (ref_table st') = WAVE_END (ref_table st)
     \<and> (\<exists>a b c d. dv st' = (dv st)[l := a] \<and> dvrms st' = (dvrms st)[l := b]
             \<and> ddv st' = (ddv st)[l := c] \<and> ddvrms st' = (ddvrms st)[l := d])"

text \<open>The keep-mask entry of line \<open>l\<close> and its entries in the six result arrays.\<close>

definition line_entries :: "fit_state \<Rightarrow> nat \<Rightarrow> bool \<times> npfloat \<times> npfloat \<times> npfloat \<times> npfloat \<times> npfloat \<times> npfloat" where
  "line_entries st l = (mask_keep st ! l, dv st ! l, dvrms st ! l, ddv st ! l, ddvrms st ! l,
     dddv st ! l, dddvrms st ! l)"

text \<open>A state of the iteration without its spread of the shifts, and a result of
  \<^verbatim>\<open>compute_rv\<close> without the output RMSRATIO.\<close>

definition without_sigma :: "rv_state \<Rightarrow> rv_state" where
  "without_sigma s = s \<lparr> stddev_nsig := NaN \<rparr>"

definition without_rmsratio :: "rv_table \<times> outputs \<Rightarrow> rv_table \<times> outputs" where
  "without_rmsratio r = (fst r, (snd r) \<lparr> OUT_RMSRATIO := NaN \<rparr>)"

text \<open>The lengths of the keep mask and of the six result arrays.\<close>

definition fit_lengths :: "fit_state \<Rightarrow> nat list" where
  "fit_lengths st = [length (mask_keep st), length (dv st), length (dvrms st), length (ddv st),
     length (ddvrms st), length (dddv st), length (dddvrms st)]"


section \<open>Properties of the Bouchy estimator\<close>




lemma inverse_square_rms_pix:
  "fdiv (Fin 1) (fsquare (fdiv r d)) = fdiv (fsquare d) (fsquare r)"
  by (cases r; cases d) (auto simp: fsquare_def inf_signed_def)

lemma bouchy_rms_general:
  "bouchy_equation_line v df r = Inr res \<Longrightarrow>
   snd res = fdiv (Fin 1) (fsqrt (np_sum (map (\<lambda>d. fdiv (fsquare d) (fsquare r)) v)))"
  by (auto simp: bouchy_equation_line_def bindr_def Let_def inverse_square_rms_pix o_def split: sum.splits)




section \<open>Sequencing and loops\<close>

lemma bindr_Inr_iff: "bindr m f = Inr y \<longleftrightarrow> (\<exists>a. m = Inr a \<and> f a = Inr y)"
  by (cases m) (simp_all add: bindr_def)

lemma bindr_Inr [simp]: "bindr (Inr a) f = f a"
  by (simp add: bindr_def)

lemma bindr_Inl [simp]: "bindr (Inl e) f = Inl e"
  by (simp add: bindr_def)

lemma for_loop_append:
  "for_loop body s (xs @ ys) = bindr (for_loop body s xs) (\<lambda>s'. for_loop body s' ys)"
  by (induction xs arbitrary: s) (simp_all add: bindr_def split: sum.splits)

section \<open>Properties of the reference table\<close>

lemma np_select_map: "np_select (map P xs) (map f xs) = map f (filter P xs)"
  by (induction xs) (simp_all add: np_select_def)

lemma count_true_map: "count_true (map P xs) = length (filter P xs)"
  by (induction xs) (simp_all add: count_true_def)

lemma add_order_lines_Inr:
  assumes "add_order_lines sp mtab wg acc n = Inr acc'"
  shows "order_list acc' = order_list acc @ replicate (length (surviving mtab (wg ! n)) - 1) n
       \<and> wave_start_list acc' = wave_start_list acc @ butlast (map ll_mask_s (surviving mtab (wg ! n)))
       \<and> wave_end_list acc' = wave_end_list acc @ tl (map ll_mask_s (surviving mtab (wg ! n)))
       \<and> weight_line_list acc' = weight_line_list acc @ butlast (map w_mask (surviving mtab (wg ! n)))"
proof -
  from assms obtain mn mx where mn: "np_min (wg ! n) = Inr mn" and mx: "np_max (wg ! n) = Inr mx"
    by (auto simp: add_order_lines_def bindr_Inr_iff)
  let ?P = "\<lambda>m. fgt (ll_mask_s m) mn \<and> flt (ll_mask_s m) mx"
  have surv: "surviving mtab (wg ! n) = filter ?P mtab"
    by (simp add: surviving_def mn mx)
  show ?thesis
  proof (cases "filter ?P mtab = []")
    case True
    with assms mn mx have "acc' = acc"
      by (simp add: add_order_lines_def count_true_map)
    with True surv show ?thesis by simp
  next
    case False
    with assms mn mx show ?thesis
      by (auto simp: add_order_lines_def count_true_map np_select_map surv bindr_Inr_iff Let_def map_butlast map_tl)
  qed
qed

lemma add_order_lines_none:
  assumes "wg ! n \<noteq> []" and "surviving mtab (wg ! n) = []"
  shows "add_order_lines sp mtab wg acc n = Inr acc"
proof -
  from assms(1) have "\<exists>mn. np_min (wg ! n) = Inr mn" and "\<exists>mx. np_max (wg ! n) = Inr mx"
    by (simp_all add: np_min_def np_max_def)
  then obtain mn mx where mn: "np_min (wg ! n) = Inr mn" and mx: "np_max (wg ! n) = Inr mx"
    by blast
  with assms(2) show ?thesis
    by (simp add: add_order_lines_def count_true_map surviving_def)
qed

lemma ref_loop_Inr:
  "for_loop (add_order_lines sp mtab wg) acc ns = Inr acc' \<Longrightarrow>
     order_list acc' = order_list acc @ concat (map (\<lambda>n. replicate (length (surviving mtab (wg ! n)) - 1) n) ns)
   \<and> wave_start_list acc' = wave_start_list acc @ concat (map (\<lambda>n. butlast (map ll_mask_s (surviving mtab (wg ! n)))) ns)
   \<and> wave_end_list acc' = wave_end_list acc @ concat (map (\<lambda>n. tl (map ll_mask_s (surviving mtab (wg ! n)))) ns)
   \<and> weight_line_list acc' = weight_line_list acc @ concat (map (\<lambda>n. butlast (map w_mask (surviving mtab (wg ! n)))) ns)"
proof (induction ns arbitrary: acc)
  case Nil
  then show ?case by simp
next
  case (Cons n ns)
  from Cons.prems obtain mid where step: "add_order_lines sp mtab wg acc n = Inr mid"
    and rest: "for_loop (add_order_lines sp mtab wg) mid ns = Inr acc'"
    by (auto simp: bindr_Inr_iff)
  from add_order_lines_Inr [OF step] Cons.IH [OF rest] show ?case by simp
qed

text \<open>
  Claim C9. On the build path, whenever \<^verbatim>\<open>make_ref_dict\<close> returns, the columns ORDER,
  WAVE_START, WAVE_END and WEIGHT_LINE are the concatenation, order after order, of one block
  per order: with \<open>n\<close> mask centers strictly inside the order's wavelength range, the block
  has \<open>n - 1\<close> lines (none when \<open>n = 0\<close>; the subtraction on naturals stops at zero), whose
  starts are all surviving centers but the last, whose ends are all but the first, whose
  weights are those of all surviving rows but the last, and whose order field is the order
  index. An order (with at least one pixel) that has no surviving center leaves the lists as
  they are and raises nothing, whatever the interpolant does.
\<close>

theorem make_ref_dict_build_lines:
  assumes "make_ref_dict sp gws loaded False files mtab = Inr rd"
  shows "ORDER rd = concat (map (\<lambda>n. replicate (length (surviving mtab (gws (hd files) ! n)) - 1) n)
                        [0..<length (gws (hd files))])
       \<and> WAVE_START rd = concat (map (\<lambda>n. butlast (map ll_mask_s (surviving mtab (gws (hd files) ! n))))
                        [0..<length (gws (hd files))])
       \<and> WAVE_END rd = concat (map (\<lambda>n. tl (map ll_mask_s (surviving mtab (gws (hd files) ! n))))
                        [0..<length (gws (hd files))])
       \<and> WEIGHT_LINE rd = concat (map (\<lambda>n. butlast (map w_mask (surviving mtab (gws (hd files) ! n))))
                        [0..<length (gws (hd files))])
       \<and> (gws (hd files) ! k \<noteq> [] \<and> surviving mtab (gws (hd files) ! k) = [] \<longrightarrow>
            add_order_lines sp mtab (gws (hd files)) acc k = Inr acc)"
proof -
  from assms obtain acc' where
    loop: "for_loop (add_order_lines sp mtab (gws (hd files)))
             \<lparr> order_list = [], wave_start_list = [], wave_end_list = [],
               weight_line_list = [], xpix_list = [] \<rparr> [0..<length (gws (hd files))] = Inr acc'"
    and rd: "ORDER rd = order_list acc'" "WAVE_START rd = wave_start_list acc'"
      "WAVE_END rd = wave_end_list acc'" "WEIGHT_LINE rd = weight_line_list acc'"
    by (auto simp: make_ref_dict_def Let_def bindr_Inr_iff split: if_splits)
  from ref_loop_Inr [OF loop] rd add_order_lines_none [of "gws (hd files)" k mtab sp acc]
  show ?thesis by simp
qed

lemma make_ref_dict_example:
  "make_ref_dict (\<lambda>x y k e. Inr (\<lambda>q. q)) (\<lambda>f. [[Fin 1, Fin 10], [Fin 20, Fin 30]]) ld False [''a'']
     [\<lparr>ll_mask_s = Fin 2, w_mask = Fin 1\<rparr>, \<lparr>ll_mask_s = Fin 5, w_mask = Fin 2\<rparr>,
      \<lparr>ll_mask_s = Fin 7, w_mask = Fin 3\<rparr>, \<lparr>ll_mask_s = Fin 40, w_mask = Fin 4\<rparr>]
   = Inr \<lparr> ORDER = [0, 0], WAVE_START = [Fin 2, Fin 5], WAVE_END = [Fin 5, Fin 7],
       WEIGHT_LINE = [Fin 1, Fin 2], XPIX = [Fin 2, Fin 5], RMSRATIO = [Fin 0, Fin 0],
       NPIXLINE = [0, 0], MEANXPIX = [Fin 0, Fin 0], MEANBLAZE = [Fin 0, Fin 0],
       AMP_CONTINUUM = [Fin 0, Fin 0], CHI2 = [Fin 0, Fin 0], CHI2_VALID_CDF = [Fin 0, Fin 0] \<rparr>"
  by (simp add: make_ref_dict_def add_order_lines_def np_min_def np_max_def fgt_def
      count_true_def np_select_def arange_def Let_def upt_rec numeral_2_eq_2)

theorem make_ref_dict_build_lines_witness:
  "make_ref_dict (\<lambda>x y k e. Inr (\<lambda>q. q)) (\<lambda>f. [[Fin 1, Fin 10], [Fin 20, Fin 30]])
     \<lparr> ORDER = [], WAVE_START = [], WAVE_END = [], WEIGHT_LINE = [], XPIX = [], RMSRATIO = [],
       NPIXLINE = [], MEANXPIX = [], MEANBLAZE = [], AMP_CONTINUUM = [], CHI2 = [],
       CHI2_VALID_CDF = [] \<rparr> False [''a'']
     [\<lparr>ll_mask_s = Fin 2, w_mask = Fin 1\<rparr>, \<lparr>ll_mask_s = Fin 5, w_mask = Fin 2\<rparr>,
      \<lparr>ll_mask_s = Fin 7, w_mask = Fin 3\<rparr>, \<lparr>ll_mask_s = Fin 40, w_mask = Fin 4\<rparr>]
   = Inr \<lparr> ORDER = [0, 0], WAVE_START = [Fin 2, Fin 5], WAVE_END = [Fin 5, Fin 7],
       WEIGHT_LINE = [Fin 1, Fin 2], XPIX = [Fin 2, Fin 5], RMSRATIO = [Fin 0, Fin 0],
       NPIXLINE = [0, 0], MEANXPIX = [Fin 0, Fin 0], MEANBLAZE = [Fin 0, Fin 0],
       AMP_CONTINUUM = [Fin 0, Fin 0], CHI2 = [Fin 0, Fin 0], CHI2_VALID_CDF = [Fin 0, Fin 0] \<rparr>
   \<and> concat (map (\<lambda>n. replicate
          (length (surviving
             [\<lparr>ll_mask_s = Fin 2, w_mask = Fin 1\<rparr>, \<lparr>ll_mask_s = Fin 5, w_mask = Fin 2\<rparr>,
              \<lparr>ll_mask_s = Fin 7, w_mask = Fin 3\<rparr>, \<lparr>ll_mask_s = Fin 40, w_mask = Fin 4\<rparr>]
             ([[Fin 1, Fin 10], [Fin 20, Fin 30]] ! n)) - 1) n) [0..<2]) = [0, 0]
   \<and> add_order_lines (\<lambda>x y k e. Inr (\<lambda>q. q))
        [\<lparr>ll_mask_s = Fin 2, w_mask = Fin 1\<rparr>, \<lparr>ll_mask_s = Fin 5, w_mask = Fin 2\<rparr>,
         \<lparr>ll_mask_s = Fin 7, w_mask = Fin 3\<rparr>, \<lparr>ll_mask_s = Fin 40, w_mask = Fin 4\<rparr>]
        [[Fin 1, Fin 10], [Fin 20, Fin 30]]
        \<lparr> order_list = [0, 0], wave_start_list = [Fin 2, Fin 5], wave_end_list = [Fin 5, Fin 7],
          weight_line_list = [Fin 1, Fin 2], xpix_list = [Fin 2, Fin 5] \<rparr> 1
      = Inr \<lparr> order_list = [0, 0], wave_start_list = [Fin 2, Fin 5], wave_end_list = [Fin 5, Fin 7],
          weight_line_list = [Fin 1, Fin 2], xpix_list = [Fin 2, Fin 5] \<rparr>"
proof -
  note ev = make_ref_dict_example [of "\<lparr> ORDER = [], WAVE_START = [], WAVE_END = [], WEIGHT_LINE = [], XPIX = [],
       RMSRATIO = [], NPIXLINE = [], MEANXPIX = [], MEANBLAZE = [], AMP_CONTINUUM = [], CHI2 = [],
       CHI2_VALID_CDF = [] \<rparr>"]
  have none: "surviving
             [\<lparr>ll_mask_s = Fin 2, w_mask = Fin 1\<rparr>, \<lparr>ll_mask_s = Fin 5, w_mask = Fin 2\<rparr>,
              \<lparr>ll_mask_s = Fin 7, w_mask = Fin 3\<rparr>, \<lparr>ll_mask_s = Fin 40, w_mask = Fin 4\<rparr>]
             [Fin 20, Fin 30] = []"
    by (simp add: surviving_def np_min_def np_max_def fgt_def)
  have two: "[0..<2] = [0, Suc 0]" by (simp add: upt_rec numeral_2_eq_2)
  show ?thesis
    using ev make_ref_dict_build_lines [OF ev, where k = 1 and acc =
      "\<lparr> order_list = [0, 0], wave_start_list = [Fin 2, Fin 5], wave_end_list = [Fin 5, Fin 7],
          weight_line_list = [Fin 1, Fin 2], xpix_list = [Fin 2, Fin 5] \<rparr>"] none
    by (simp add: two surviving_def np_min_def np_max_def fgt_def)
qed

section \<open>Properties of the noise model\<close>

lemma sigma_step_nth:
  assumes "j < length sigma" "it < length sigma"
  shows "sigma_step es np n res indices sigma it ! j =
     (if j = it then box_sigma es np n res (indices ! it)
      else if sigma ! j = Fin 0 then NaN else sigma ! j)"
proof -
  have a: "nat (if int (indices ! it) - int np < 0 then 0 else int (indices ! it) - int np) = indices ! it - np"
    by auto
  have b: "nat (if int (indices ! it) + int np > int n then int n else int (indices ! it) + int np)
            = min n (indices ! it + np)"
    by auto
  show ?thesis
    unfolding sigma_step_def Let_def a b using assms
    by (simp add: box_sigma_def Let_def)
qed

lemma sigma_step_length: "length (sigma_step es np n res indices sigma it) = length sigma"
  by (simp add: sigma_step_def Let_def)

lemma box_loop_inv:
  "k \<le> K \<Longrightarrow>
   foldl (sigma_step es np n res indices) (replicate K (Fin 0)) [0..<k] =
     map (\<lambda>j. if j < k then box_sigma es np n res (indices ! j) else if k = 0 then Fin 0 else NaN) [0..<K]"
proof (induction k)
  case 0
  show ?case by (simp add: map_replicate_trivial)
next
  case (Suc k)
  then have IH: "foldl (sigma_step es np n res indices) (replicate K (Fin 0)) [0..<k] =
     map (\<lambda>j. if j < k then box_sigma es np n res (indices ! j) else if k = 0 then Fin 0 else NaN) [0..<K]"
    and k: "k < K" by simp_all
  have z: "\<And>i. box_sigma es np n res i \<noteq> Fin 0"
    by (simp add: box_sigma_def Let_def)
  show ?case
    unfolding upt_Suc_append [OF le0] foldl_append IH
    by (rule nth_equalityI) (use k z in \<open>auto simp: sigma_step_length sigma_step_nth\<close>)
qed

lemma box_sigmas_eq:
  "box_sigmas es np n res = map (box_sigma es np n res) (arange_step n np)"
proof -
  let ?ix = "arange_step n np"
  have "foldl (sigma_step es np n res ?ix) (replicate (length ?ix) (Fin 0)) [0..<length ?ix]
      = map (\<lambda>j. box_sigma es np n res (?ix ! j)) [0..<length ?ix]"
    using box_loop_inv [of "length ?ix" "length ?ix" es np n res ?ix] by simp
  also have "\<dots> = map (box_sigma es np n res) ?ix"
    by (rule nth_equalityI) simp_all
  finally show ?thesis by (simp add: box_sigmas_def Let_def)
qed

lemma noise_order_updates_row:
  "noise_order es sp npoints spectrum model rows j = Inr rows' \<Longrightarrow> \<exists>row. rows' = rows[j := row]"
  by (auto simp: noise_order_def Let_def bindr_Inr_iff split: if_splits)

lemma noise_loop_other_rows:
  "for_loop (noise_order es sp npoints spectrum model) rows ns = Inr rows' \<Longrightarrow> n \<notin> set ns \<Longrightarrow>
   rows' ! n = rows ! n \<and> length rows' = length rows"
proof (induction ns arbitrary: rows)
  case Nil
  then show ?case by simp
next
  case (Cons j ns)
  from Cons.prems(1) obtain mid where step: "noise_order es sp npoints spectrum model rows j = Inr mid"
    and rest: "for_loop (noise_order es sp npoints spectrum model) mid ns = Inr rows'"
    by (auto simp: bindr_Inr_iff)
  from noise_order_updates_row [OF step] obtain row where mid: "mid = rows[j := row]" by blast
  from Cons.prems(2) have "n \<noteq> j" "n \<notin> set ns" by auto
  with Cons.IH [OF rest] mid show ?case by simp
qed

lemma noise_order_few:
  assumes "n < length model"
    and "length (spectrum ! n) = length (model ! n)"
    and "length (rows ! n) = shape1 model"
    and "0 < npoints"
    and "count_true (map isfinite (box_sigmas es npoints (shape1 model)
           (map2 fsub (spectrum ! n) (model ! n)))) < 3"
  shows "noise_order es sp npoints spectrum model rows n = Inr (rows[n := replicate (shape1 model) NaN])"
  using assms by (simp add: noise_order_def np_binop_def assign_row_def Let_def)

text \<open>
  Claim C10. Take an order of \<^verbatim>\<open>estimate_noise_model\<close> (spectrum and model rows of the
  model's width, a positive box size) in which fewer than three boxes have a finite sigma,
  a zero sigma counting as invalid. Then the loop body for that order raises nothing and
  writes a row made of NaN only, without calling the interpolant; and in whatever the
  function returns, the row of that order is that row of NaN, so it holds no zero.
\<close>

theorem estimate_noise_model_unknown_row:
  assumes n: "n < length spectrum" "n < length model"
    and shp: "length (spectrum ! n) = shape1 model" "length (model ! n) = shape1 model"
    and np: "0 < npoints"
    and few: "length (filter (\<lambda>idx. isfinite (box_sigma es npoints (shape1 model)
                 (map2 fsub (spectrum ! n) (model ! n)) idx))
               (arange_step (shape1 model) npoints)) < 3"
  shows "(length (rows ! n) = shape1 model \<longrightarrow>
            noise_order es sp npoints spectrum model rows n =
              Inr (rows[n := replicate (shape1 model) NaN]))
       \<and> (estimate_noise_model es sp spectrum model npoints = Inr out \<longrightarrow>
            out ! n = replicate (shape1 model) NaN \<and> Fin 0 \<notin> set (out ! n))"
proof (intro conjI impI)
  have few': "count_true (map isfinite (box_sigmas es npoints (shape1 model)
           (map2 fsub (spectrum ! n) (model ! n)))) < 3"
    using few by (simp add: box_sigmas_eq count_true_def filter_map o_def)
  {
    assume "length (rows ! n) = shape1 model"
    with n shp np few' show "noise_order es sp npoints spectrum model rows n =
              Inr (rows[n := replicate (shape1 model) NaN])"
      by (simp add: noise_order_few)
  }
  assume run: "estimate_noise_model es sp spectrum model npoints = Inr out"
  let ?body = "noise_order es sp npoints spectrum model"
  let ?init = "map (\<lambda>row. replicate (length row) (Fin 0)) spectrum"
  have split: "[0..<length spectrum] = [0..<n] @ n # [Suc n..<length spectrum]"
    using n(1) upt_add_eq_append [of 0 n "length spectrum - n"] by (simp add: upt_conv_Cons)
  from run obtain r1 r2 where
    pre: "for_loop ?body ?init [0..<n] = Inr r1"
    and mid: "?body r1 n = Inr r2"
    and post: "for_loop ?body r2 [Suc n..<length spectrum] = Inr out"
    unfolding estimate_noise_model_def split for_loop_append
    by (auto simp: bindr_Inr_iff)
  from noise_loop_other_rows [OF pre, of n] have r1: "r1 ! n = ?init ! n" "length r1 = length spectrum"
    by simp_all
  with n shp have len: "length (r1 ! n) = shape1 model" by simp
  from noise_order_few [OF n(2) _ len np few', of sp] shp mid
  have r2: "r2 = r1[n := replicate (shape1 model) NaN]" by simp
  from noise_loop_other_rows [OF post, of n] have "out ! n = r2 ! n" by simp
  with r2 r1 n show "out ! n = replicate (shape1 model) NaN" by simp
  then show "Fin 0 \<notin> set (out ! n)" by simp
qed

lemma estimate_noise_model_example:
  "estimate_noise_model (\<lambda>xs. np_sum (map fabs xs)) (\<lambda>x y k e. Inl ValueError)
     [[Fin 1, Fin 2, Fin 3]] [[Fin 1, Fin 1, Fin 1]] 2 = Inr [[NaN, NaN, NaN]]"
  by code_simp

theorem estimate_noise_model_unknown_row_witness:
  "noise_order (\<lambda>xs. np_sum (map fabs xs)) (\<lambda>x y k e. Inl ValueError) 2
      [[Fin 1, Fin 2, Fin 3]] [[Fin 1, Fin 1, Fin 1]] [[Fin 0, Fin 0, Fin 0]] 0 = Inr [[NaN, NaN, NaN]]
   \<and> estimate_noise_model (\<lambda>xs. np_sum (map fabs xs)) (\<lambda>x y k e. Inl ValueError)
      [[Fin 1, Fin 2, Fin 3]] [[Fin 1, Fin 1, Fin 1]] 2 = Inr [[NaN, NaN, NaN]]
   \<and> Fin 0 \<notin> set ([[NaN, NaN, NaN]] ! 0)"
proof -
  let ?S = "[[Fin 1, Fin 2, Fin 3]]" and ?M = "[[Fin 1, Fin 1, Fin 1]]"
  let ?es = "\<lambda>xs. np_sum (map fabs xs)"
  have few: "length (filter (\<lambda>idx. isfinite (box_sigma ?es 2 (shape1 ?M)
                 (map2 fsub (?S ! 0) (?M ! 0)) idx))
               (arange_step (shape1 ?M) 2)) < 3"
    by code_simp
  have sh: "shape1 ?M = 3" by (simp add: shape1_def)
  from estimate_noise_model_unknown_row [of 0 ?S ?M 2 ?es "[[Fin 0, Fin 0, Fin 0]]"
      "\<lambda>x y k e. Inl ValueError" "[[NaN, NaN, NaN]]", OF _ _ _ _ _ few]
    estimate_noise_model_example
  show ?thesis by (simp add: sh numeral_3_eq_3)
qed

section \<open>The small exposure, evaluated\<close>

lemmas ex_defs = ex_mp_def ex_p_def ex_tbl_def ex_wave_def ex_sci_def ex_blaze_def ex_hp_def
  ex_models_def

lemma ex_highpass: "highpass_science ex_mp (Fin 500000) ex_wave ex_sci = Inr ex_hp"
  by (simp add: ex_defs highpass_science_def highpass_order_def get_velo_scale_def
      np_gradient_def inplace_sub_def get_at_def fsub_def np_sum_def speed_of_light_ms_def
      Let_def upt_rec)

lemma ex_noise: "estimate_noise_model (estimate_sigma ex_mp) (iuv_spline ex_mp) ex_hp
     (model_arr ex_models) 100 = Inr [[NaN, NaN, NaN, NaN, NaN, NaN]]"
  by (simp add: ex_defs estimate_noise_model_def noise_order_def box_sigmas_def sigma_step_def
      assign_row_def arange_step_def shape1_def slice_def np_binop_def np_sum_def fsub_def
      count_true_def Let_def upt_rec)

lemma ex_window: "line_window (two_point_line (hd ex_wave) (arange 6)) (Fin 110) (Fin 130) = Inr (1, 3)"
  by (simp add: line_window_def two_point_line_def ex_wave_def arange_def fsub_def upt_rec)

lemma ex_weights:
  "build_weight_mask [Fin 100, Fin 110, Fin 120, Fin 130, Fin 140, Fin 150] (Fin 110) (Fin 130) 1 3
     = Inr ([Fin 1, Fin 1, Fin 1], [Fin 100, Fin 110, Fin 120, Fin 130, Fin 140, Fin 150])"
  by (simp add: build_weight_mask_def py_get_def py_set_def fgt_def fsub_def Let_def
      numeral_3_eq_3)

lemma ex_bouchy1:
  "bouchy_equation_line [Fin 1, Fin 2, Fin 1] [Fin 0, Fin (1/10), Fin 0] (Fin 0) = Inr (Fin (1/30), Fin 0)"
  by (simp add: bouchy_equation_line_def np_binop_def nansum_def np_sum_def fsquare_def
      inf_signed_def Let_def)

lemma ex_bouchy2:
  "bouchy_equation_line [Fin 2, Fin 1, Fin 2] [Fin 0, Fin (1/10), Fin 0] (Fin 0) = Inr (Fin (1/90), Fin 0)"
  by (simp add: bouchy_equation_line_def np_binop_def nansum_def np_sum_def fsquare_def
      inf_signed_def Let_def)

lemma ex_bouchy3:
  "bouchy_equation_line [Fin 1, Fin 2, Fin 2] [Fin 0, Fin (1/10), Fin 0] (Fin 0) = Inr (Fin (1/45), Fin 0)"
  by (simp add: bouchy_equation_line_def np_binop_def nansum_def np_sum_def fsquare_def
      inf_signed_def Let_def)

lemma ex_fit_line:
  "fit_line ex_mp (ex_fit keep v e) 0 1 3 [Fin 1, Fin 1, Fin 1]
     [Fin 0, Fin 1, Fin (31/10), Fin 1, Fin 0, Fin 0] [NaN, NaN, NaN, NaN, NaN, NaN]
     [Fin 0, Fin 1, Fin 3, Fin 1, Fin 0, Fin 0] [Fin 0, Fin 1, Fin 2, Fin 1, Fin 0, Fin 0]
     [Fin 0, Fin 2, Fin 1, Fin 2, Fin 0, Fin 0] [Fin 0, Fin 1, Fin 2, Fin 2, Fin 0, Fin 0]
     [Fin 1, Fin 1, Fin 1, Fin 1, Fin 1, Fin 1]
   = Inr ((ex_fit keep (Fin (1/30)) (Fin 0)) \<lparr> ddv := [Fin (1/45)], ddvrms := [Fin 0],
            ref_table := ex_tbl1 \<rparr>)"
  by (simp add: fit_line_def ex_fit_def ex_tbl1_def ex_tbl_def ex_mp_def np_binop_def py_slice_def
      slice_def py_get_def set_at_def nansum_def np_sum_def fsub_def fsquare_def inf_signed_def
      ex_bouchy1 ex_bouchy2 ex_bouchy3 Let_def upt_rec numeral_3_eq_3)

lemma ex_line_step_fit:
  "iteration = 1 \<or> keep \<Longrightarrow> line_step ex_mp ex_env iteration (ex_fit keep v e) 0 = Inr ex_fitted"
  using ex_fit_line [of False v e, unfolded ex_fit_def]
  by (simp add: line_step_def ex_env_def ex_fit_def ex_fitted_def ex_tbl_def ex_hp_def ex_wave_def
      ex_models_def ex_blaze_def get_at_def ex_window [unfolded ex_wave_def, simplified]
      ex_weights Let_def)

lemma ex_line_step_skip:
  "iteration \<noteq> 1 \<Longrightarrow> line_step ex_mp ex_env iteration (ex_fit False v e) 0 = Inr (ex_fit False v e)"
  by (simp add: line_step_def ex_fit_def ex_tbl_def get_at_def)

lemma ex_fit_wave: "(ex_fit k v e) \<lparr> nwavegrid := ex_wave \<rparr> = ex_fit k v e"
  by (simp add: ex_fit_def)

lemma ex_fit_table: "ref_table (ex_fit k v e) = ex_tbl"
  by (simp add: ex_fit_def)

lemma ex_initial: "initial_state ex_tbl ex_hp (Fin 0) =
   \<lparr> fit = (ex_fit True NaN NaN) \<lparr> nwavegrid := [] \<rparr>, sys_rv = Fin 0, rv_final = [NaN],
     num_to_converge = 0, stddev_nsig = NaN, rms = [[Fin 0, Fin 0, Fin 0, Fin 0, Fin 0, Fin 0]] \<rparr>"
  by (simp add: initial_state_def ex_tbl_def ex_hp_def ex_fit_def Let_def)

lemma ex_doppler: "doppler_shift ex_mp ex_wave (Fin 0) = ex_wave"
  by (simp add: ex_mp_def ex_wave_def speed_of_light_ms_def)

lemma ex_splines: "build_wave2pixlist ex_mp ex_wave ex_wave xpix = Inr [two_point_line (hd ex_wave) xpix]"
  by (simp add: build_wave2pixlist_def ex_mp_def ex_wave_def get_at_def)

lemma ex_update_fitted:
  "velocity_update ex_mp p berv st rows ex_fitted =
     Inr (\<lparr> fit = ex_fitted, sys_rv = fadd (sys_rv st) (Fin (1/30)),
            rv_final = [fsub (fadd (Fin (1/30)) (sys_rv st)) berv],
            num_to_converge = num_to_converge st + 1, stddev_nsig = Fin 0, rms = rows \<rparr>,
          flt (Fin (1/30)) (fmul (COMPUTE_RV_BULK_ERROR_CONVERGENCE p) (Fin 1)))"
  by (simp add: velocity_update_def ex_fitted_def ex_fit_def ex_mp_def np_binop_def np_sum_def
      inf_signed_def Let_def)

lemma ex_pass0:
  "iteration_body ex_mp ex_p ex_wave ex_hp ex_blaze (Fin 0) 0 (initial_state ex_tbl ex_hp (Fin 0)) =
     Inr (ex_state ex_fitted (Fin (1/30)) 1, True)"
proof -
  have env: "\<lparr> sci_data_env = ex_hp, rms_env = [[NaN, NaN, NaN, NaN, NaN, NaN]],
              models_env = ex_models, blaze_env = ex_blaze,
              wave2pixlist = [two_point_line (hd ex_wave) (arange 6)], min_line_width = 5 \<rparr> = ex_env"
    by (simp add: ex_env_def)
  have six: "shape1 (model_arr ex_models) = 6" by (simp add: shape1_def ex_models_def)
  have upd: "update_models ex_mp 0 (Fin 0) ex_hp = ex_models" by (simp add: ex_mp_def)
  have nm: "\<not> USE_NOISE_MODEL ex_p" "COMPUTE_LINE_MIN_PIX_WIDTH ex_p = 5"
    "COMPUTE_RV_BULK_ERROR_CONVERGENCE ex_p = Fin (1/10)" by (simp_all add: ex_p_def)
  have one: "length (ORDER ex_tbl) = 1" by (simp add: ex_tbl_def)
  show ?thesis
    unfolding iteration_body_def ex_initial
    by (simp add: upd nm ex_noise six ex_doppler ex_splines env one ex_fit_wave ex_fit_table
        ex_line_step_fit ex_update_fitted ex_state_def fsub_def Let_def)
qed

lemma ex_run:
  "compute_rv ex_mp ex_p 0 ex_sci (Fin 10) (Fin 0) ex_wave ex_tbl ex_blaze [Fin 0] [Fin 0] None True =
     Inr (\<lparr> ORDER = [0], WAVE_START = [Fin 110], WAVE_END = [Fin 130], WEIGHT_LINE = [Fin 1],
            XPIX = [Fin 1], RMSRATIO = [PInf], NPIXLINE = [3], MEANXPIX = [Fin 2],
            MEANBLAZE = [Fin 1], AMP_CONTINUUM = [Fin 0], CHI2 = [PInf], CHI2_VALID_CDF = [Fin 1],
            RV = [Fin (- (1/30))], DVRMS = [Fin 0], DDV = [Fin (1/45)], DDVRMS = [Fin 0],
            DDDV = [NaN], DDDVRMS = [NaN] \<rparr>,
          \<lparr> SYSTEMIC_ALL = [Fin (1/30)], MJDATE_ALL = [Fin 10], RESET_RV = True,
            NUM_ITERATIONS = 1, SYSTEMIC_VELOCITY = Fin (1/30), OUT_RMSRATIO = Fin 0,
            CCF_EW = Some (Fin 0), OUT_HP_WIDTH = Fin 500000 \<rparr>)"
proof -
  have p: "HP_WIDTH ex_p = Fin 500" "OBJECT_SCIENCE ex_p = ''FP''" "COMPUTE_RV_N_ITERATIONS ex_p = 3"
    "COMPUTE_RV_MAX_N_GOOD_ITERS ex_p = 1" by (simp_all add: ex_p_def)
  have first: "first_estimate ex_mp ex_p True None ex_wave ex_hp ex_tbl (Fin 10) [Fin 0] [Fin 0]
     = Inr (Fin 0, Some (Fin 0))"
    by (simp add: first_estimate_def contains_FP_def p upt_rec)
  have loop: "iterate (iteration_body ex_mp ex_p ex_wave ex_hp ex_blaze (Fin 0))
                (initial_state ex_tbl ex_hp (Fin 0)) [0..<3] = Inr (ex_state ex_fitted (Fin (1/30)) 1)"
    by (simp add: upt_rec ex_pass0)
  have cdf: "chi2_cdf ex_mp = (\<lambda>c n. Fin 0)" by (simp add: ex_mp_def)
  show ?thesis
    unfolding compute_rv_def
    apply (simp add: p ex_highpass first loop cdf Let_def)
    apply (simp add: ex_state_def ex_fitted_def ex_fit_def ex_tbl1_def ex_tbl_def
        np_binop_def set_at_def fsub_def rv_table.defs ref_dict.defs)
    done
qed

section \<open>What a fit of one line leaves alone\<close>

lemma set_at_Inr_iff: "set_at xs i v = Inr ys \<longleftrightarrow> i < length xs \<and> ys = xs[i := v]"
  by (auto simp: set_at_def)

lemma get_at_Inr_iff: "get_at xs i = Inr y \<longleftrightarrow> i < length xs \<and> y = xs ! i"
  by (auto simp: get_at_def)

lemma bindrE: "bindr m f = Inr y \<Longrightarrow> (\<And>a. m = Inr a \<Longrightarrow> f a = Inr y \<Longrightarrow> P) \<Longrightarrow> P"
  by (cases m) (simp_all add: bindr_def)

text \<open>What one fit leaves alone: the keep mask, the third-order arrays, and the entries
  of the other lines.\<close>

lemma fit_line_frame:
  assumes "fit_line mp st l x_start x_end wm sci_ord rms_ord model_ord dmodel_ord ddmodel_ord
             dddmodel_ord blaze_ord = Inr st'"
  shows "mask_keep st' = mask_keep st \<and> dddv st' = dddv st \<and> dddvrms st' = dddvrms st
       \<and> nwavegrid st' = nwavegrid st
       \<and> ORDER (ref_table st') = ORDER (ref_table st)
       \<and> WAVE_START (ref_table st') = WAVE_START (ref_table st)
       \<and> WAVE_END (ref_table st') = WAVE_END (ref_table st)
       \<and> (\<exists>a b c d. dv st' = (dv st)[l := a] \<and> dvrms st' = (dvrms st)[l := b]
             \<and> ddv st' = (ddv st)[l := c] \<and> ddvrms st' = (ddvrms st)[l := d])"
  using assms
  apply (unfold fit_line_def Let_def)
  apply (erule bindrE)+
  apply (clarsimp simp: set_at_Inr_iff)
  apply blast
  done

lemma same_but_line_refl: "same_but_line l st st"
  unfolding same_but_line_def by (metis list_update_id)

lemma same_but_line_upd: "same_but_line l st (st \<lparr> mask_keep := m \<rparr>)"
  unfolding same_but_line_def by simp (metis list_update_id)

lemma same_but_line_mask: "same_but_line l st st' \<Longrightarrow> same_but_line l (st \<lparr> mask_keep := m \<rparr>) st'"
  by (simp add: same_but_line_def)

lemma same_but_line_wave: "same_but_line l st st' \<Longrightarrow> same_but_line l (st \<lparr> nwavegrid := m \<rparr>) st'"
  by (simp add: same_but_line_def)

lemma fit_line_same:
  "fit_line mp st l x_start x_end wm sci_ord rms_ord model_ord dmodel_ord ddmodel_ord
             dddmodel_ord blaze_ord = Inr st' \<Longrightarrow> same_but_line l st st' \<and> mask_keep st' = mask_keep st"
  by (drule fit_line_frame) (simp add: same_but_line_def)

lemma line_step_frame:
  assumes "line_step mp env it st l = Inr st'"
  shows "same_but_line l st st' \<and> (mask_keep st' = mask_keep st \<or> mask_keep st' = (mask_keep st)[l := False])"
  using assms
  apply (unfold line_step_def)
  apply (erule bindrE)
  apply (split if_split_asm)
   apply (simp add: same_but_line_refl)
  apply (erule bindrE)+
  apply (clarsimp simp: Let_def split: prod.splits if_split_asm)
       apply (simp_all add: same_but_line_refl same_but_line_upd)
   apply (erule bindrE, clarsimp, drule fit_line_same, simp add: same_but_line_def)+
  done




lemma velocity_update_fit:
  "velocity_update mp p berv s rows fs = Inr (s', c) \<Longrightarrow> fit s' = fs"
  by (auto simp: velocity_update_def Let_def split: prod.splits elim!: bindrE)

lemma iteration_body_fit:
  assumes "iteration_body mp p wavegrid sci_data blaze berv it s = Inr (s', c)"
  obtains env nwave where
    "for_loop (line_step mp env it) ((fit s) \<lparr> nwavegrid := nwave \<rparr>)
       [0..<length (ORDER (ref_table (fit s)))] = Inr (fit s')"
  using assms
  apply (unfold iteration_body_def Let_def)
  apply (erule bindrE)+
  apply (frule velocity_update_fit)
  apply simp
  done

lemma line_entries_wave [simp]: "line_entries (st \<lparr> nwavegrid := w \<rparr>) l = line_entries st l"
  by (simp add: line_entries_def)




section \<open>Independence of the sigma threshold\<close>

lemma velocity_update_thres:
  "map_sum id (\<lambda>(s, c). (without_sigma s, c))
      (velocity_update mp (p \<lparr> COMPUTE_LINE_NSIG_THRES := t \<rparr>) berv st rows fs)
   = map_sum id (\<lambda>(s, c). (without_sigma s, c)) (velocity_update mp p berv st rows fs)"
  by (cases "np_binop fdiv (dv fs) (dvrms fs)")
     (simp_all add: velocity_update_def without_sigma_def Let_def split: prod.splits)

lemma map_sum_bindr: "map_sum id g (bindr m f) = bindr m (\<lambda>a. map_sum id g (f a))"
  by (cases m) simp_all

lemma iteration_body_thres:
  "map_sum id (\<lambda>(s, c). (without_sigma s, c))
      (iteration_body mp (p \<lparr> COMPUTE_LINE_NSIG_THRES := t \<rparr>) wavegrid sci_data blaze berv it st)
   = map_sum id (\<lambda>(s, c). (without_sigma s, c))
      (iteration_body mp p wavegrid sci_data blaze berv it st)"
  by (simp add: iteration_body_def Let_def map_sum_bindr velocity_update_thres)

lemma velocity_update_ignores_sigma:
  "velocity_update mp p berv (st \<lparr> stddev_nsig := x \<rparr>) rows = velocity_update mp p berv st rows"
  by (rule ext) (simp add: velocity_update_def)

lemma iteration_body_ignores_sigma:
  "iteration_body mp p wavegrid sci_data blaze berv it (without_sigma st)
   = iteration_body mp p wavegrid sci_data blaze berv it st"
  by (simp add: iteration_body_def without_sigma_def velocity_update_ignores_sigma cong: if_cong)

lemma iterate_thres:
  "without_sigma s = without_sigma s' \<Longrightarrow>
   map_sum id without_sigma
     (iterate (iteration_body mp (p \<lparr> COMPUTE_LINE_NSIG_THRES := t \<rparr>) wavegrid sci_data blaze berv) s its)
   = map_sum id without_sigma (iterate (iteration_body mp p wavegrid sci_data blaze berv) s' its)"
proof (induction its arbitrary: s s')
  case Nil
  then show ?case by simp
next
  case (Cons it its)
  let ?b' = "iteration_body mp (p \<lparr> COMPUTE_LINE_NSIG_THRES := t \<rparr>) wavegrid sci_data blaze berv"
  let ?b = "iteration_body mp p wavegrid sci_data blaze berv"
  have "?b it s' = ?b it (without_sigma s')" by (simp only: iteration_body_ignores_sigma)
  also have "\<dots> = ?b it (without_sigma s)" by (simp only: Cons.prems)
  also have "\<dots> = ?b it s" by (simp only: iteration_body_ignores_sigma)
  finally have same: "?b it s' = ?b it s" .
  have rel: "map_sum id (\<lambda>(s, c). (without_sigma s, c)) (?b' it s)
           = map_sum id (\<lambda>(s, c). (without_sigma s, c)) (?b it s')"
    unfolding same by (rule iteration_body_thres)
  show ?case
  proof (cases "?b it s'")
    case (Inl e)
    with rel have "?b' it s = Inl e" by (cases "?b' it s") simp_all
    with Inl show ?thesis by simp
  next
    case (Inr r)
    obtain m c where r: "r = (m, c)" by (cases r)
    from rel Inr r obtain m' where b': "?b' it s = Inr (m', c)" and m: "without_sigma m' = without_sigma m"
      by (cases "?b' it s") auto
    show ?thesis
    proof (cases c)
      case True
      with Inr r b' m show ?thesis by simp
    next
      case False
      with Inr r b' Cons.IH [OF m] show ?thesis by simp
    qed
  qed
qed

lemma first_estimate_thres:
  "first_estimate mp (p \<lparr> COMPUTE_LINE_NSIG_THRES := t \<rparr>) reset ew wavegrid sci_data tbl mjd ma sa
   = first_estimate mp p reset ew wavegrid sci_data tbl mjd ma sa"
  by (simp add: first_estimate_def)

lemma finish_thres:
  assumes "without_sigma st' = without_sigma st"
  shows "fit st' = fit st" "sys_rv st' = sys_rv st" "rv_final st' = rv_final st"
    "num_to_converge st' = num_to_converge st"
  using assms unfolding without_sigma_def
  by (cases st; cases st'; simp)+

lemma compute_rv_thres:
  "map_sum id without_rmsratio
     (compute_rv mp (p \<lparr> COMPUTE_LINE_NSIG_THRES := t \<rparr>) i sci_data mjd berv wavegrid tbl blaze sa ma
        ew reset)
   = map_sum id without_rmsratio
     (compute_rv mp p i sci_data mjd berv wavegrid tbl blaze sa ma ew reset)"
proof -
  {
    fix sci v
    let ?I' = "iterate (iteration_body mp (p \<lparr> COMPUTE_LINE_NSIG_THRES := t \<rparr>) wavegrid sci blaze berv)
                 (initial_state tbl sci v) [0..<COMPUTE_RV_N_ITERATIONS p]"
    let ?I = "iterate (iteration_body mp p wavegrid sci blaze berv)
                 (initial_state tbl sci v) [0..<COMPUTE_RV_N_ITERATIONS p]"
    have rel: "map_sum id without_sigma ?I' = map_sum id without_sigma ?I"
      by (rule iterate_thres) simp
    fix G' G :: "rv_state \<Rightarrow> error + (rv_table \<times> outputs)"
    assume G: "\<And>a b. without_sigma a = without_sigma b \<Longrightarrow>
                 map_sum id without_rmsratio (G' a) = map_sum id without_rmsratio (G b)"
    have "map_sum id without_rmsratio (bindr ?I' G') = map_sum id without_rmsratio (bindr ?I G)"
    proof (cases ?I)
      case (Inl e)
      with rel have "?I' = Inl e" by (cases ?I') simp_all
      with Inl show ?thesis by simp
    next
      case (Inr a)
      with rel obtain a' where "?I' = Inr a'" "without_sigma a' = without_sigma a"
        by (cases ?I') auto
      with Inr G show ?thesis by simp
    qed
  } note step = this
  let ?p' = "p \<lparr> COMPUTE_LINE_NSIG_THRES := t \<rparr>"
  let ?G = "\<lambda>ew' st. bindr (np_binop (\<lambda>c n. fsub (Fin 1) (chi2_cdf mp c n))
                  (CHI2 (ref_table (fit st))) (NPIXLINE (ref_table (fit st)))) (\<lambda>cdf.
         bindr (set_at sa i (fsub (sys_rv st) berv)) (\<lambda>systemic_all.
         bindr (set_at ma i mjd) (\<lambda>mjdate_all.
           Inr (ref_dict.extend ((ref_table (fit st)) \<lparr> CHI2_VALID_CDF := cdf \<rparr>)
                  (rv_table.fields (map fneg (rv_final st)) (dvrms (fit st)) (ddv (fit st))
                     (ddvrms (fit st)) (dddv (fit st)) (dddvrms (fit st))),
                \<lparr> SYSTEMIC_ALL = systemic_all,
                  MJDATE_ALL = mjdate_all,
                  RESET_RV = (int (num_to_converge st) \<ge> COMPUTE_RV_MAX_N_GOOD_ITERS p),
                  NUM_ITERATIONS = num_to_converge st,
                  SYSTEMIC_VELOCITY = sys_rv st,
                  OUT_RMSRATIO = stddev_nsig st,
                  CCF_EW = ew',
                  OUT_HP_WIDTH = fmul (HP_WIDTH p) (Fin 1000) \<rparr>))))"
  have G: "\<And>ew' a b. without_sigma a = without_sigma b \<Longrightarrow>
      map_sum id without_rmsratio (?G ew' a) = map_sum id without_rmsratio (?G ew' b)"
  proof -
    fix ew' a b
    assume "without_sigma a = without_sigma b"
    note f = finish_thres [OF this]
    show "map_sum id without_rmsratio (?G ew' a) = map_sum id without_rmsratio (?G ew' b)"
      by (simp add: f map_sum_bindr without_rmsratio_def)
  qed
  show ?thesis
  proof (cases "highpass_science mp (fmul (HP_WIDTH p) (Fin 1000)) wavegrid sci_data")
    case (Inl e)
    then show ?thesis by (simp add: compute_rv_def)
  next
    case hp: (Inr sci)
    show ?thesis
    proof (cases "first_estimate mp p reset ew wavegrid sci tbl mjd ma sa")
      case (Inl e)
      with hp show ?thesis by (simp add: compute_rv_def first_estimate_thres)
    next
      case (Inr ve)
      obtain v ew' where ve: "ve = (v, ew')" by (cases ve)
      have a: "compute_rv mp ?p' i sci_data mjd berv wavegrid tbl blaze sa ma ew reset
            = bindr (iterate (iteration_body mp ?p' wavegrid sci blaze berv)
                 (initial_state tbl sci v) [0..<COMPUTE_RV_N_ITERATIONS p]) (?G ew')"
        using hp Inr ve by (simp add: compute_rv_def first_estimate_thres)
      have b: "compute_rv mp p i sci_data mjd berv wavegrid tbl blaze sa ma ew reset
            = bindr (iterate (iteration_body mp p wavegrid sci blaze berv)
                 (initial_state tbl sci v) [0..<COMPUTE_RV_N_ITERATIONS p]) (?G ew')"
        using hp Inr ve by (simp add: compute_rv_def)
      show ?thesis unfolding a b by (rule step) (rule G)
    qed
  qed
qed

section \<open>The high-pass of the science flux\<close>

lemma highpass_order_row:
  "highpass_order mp hp wavegrid sci n = Inr out \<Longrightarrow>
     \<exists>width row. get_velo_scale mp (wavegrid ! n) hp = Inr width
       \<and> inplace_sub (sci ! n) (lowpassfilter mp (wavegrid ! n) width) = Inr row
       \<and> out = sci[n := row]"
  by (auto simp: highpass_order_def get_at_Inr_iff elim!: bindrE)

lemma highpass_loop_other:
  "for_loop (highpass_order mp hp wavegrid) sci ns = Inr out \<Longrightarrow> n \<notin> set ns \<Longrightarrow>
   out ! n = sci ! n \<and> length out = length sci"
proof (induction ns arbitrary: sci)
  case Nil
  then show ?case by simp
next
  case (Cons k ks)
  from Cons.prems(1) obtain mid where step: "highpass_order mp hp wavegrid sci k = Inr mid"
    and rest: "for_loop (highpass_order mp hp wavegrid) mid ks = Inr out"
    by (auto elim!: bindrE)
  from highpass_order_row [OF step] obtain row where mid: "mid = sci[k := row]" by blast
  from Cons.prems(2) have "n \<noteq> k" "n \<notin> set ks" by auto
  with Cons.IH [OF rest] mid show ?case by simp
qed

text \<open>
Claim C1 says that every order of the science flux becomes the flux minus the low-pass
  filter of that flux. The loop of \<^verbatim>\<open>compute_rv\<close> does something else, for every choice of
  the collaborators: whenever it returns, the row of order \<open>n\<close> is the flux of that order
  minus the low-pass filter of the order's \<^emph>\<open>wavelength\<close> row, at the width that
  \<^verbatim>\<open>get_velo_scale\<close> derives from that row.
\<close>

theorem highpass_science_filters_wavegrid:
  assumes run: "highpass_science mp hp wavegrid sci = Inr out" and n: "n < length sci"
  shows "\<exists>width. get_velo_scale mp (wavegrid ! n) hp = Inr width
           \<and> inplace_sub (sci ! n) (lowpassfilter mp (wavegrid ! n) width) = Inr (out ! n)"
proof -
  let ?body = "highpass_order mp hp wavegrid"
  have split: "[0..<length sci] = [0..<n] @ n # [Suc n..<length sci]"
    using n upt_add_eq_append [of 0 n "length sci - n"] by (simp add: upt_conv_Cons)
  from run obtain r1 r2 where
    pre: "for_loop ?body sci [0..<n] = Inr r1" and mid: "?body r1 n = Inr r2"
    and post: "for_loop ?body r2 [Suc n..<length sci] = Inr out"
    unfolding highpass_science_def split for_loop_append
    by (auto elim!: bindrE)
  from highpass_loop_other [OF pre, of n] have r1: "r1 ! n = sci ! n" "length r1 = length sci"
    by simp_all
  from highpass_order_row [OF mid] obtain width row where
    w: "get_velo_scale mp (wavegrid ! n) hp = Inr width"
    and row: "inplace_sub (r1 ! n) (lowpassfilter mp (wavegrid ! n) width) = Inr row"
    and r2: "r2 = r1[n := row]" by blast
  from highpass_loop_other [OF post, of n] have "out ! n = r2 ! n" by simp
  with r2 r1 n have "out ! n = row" by simp
  with w row r1 show ?thesis by auto
qed

text \<open>
On the small exposure the high-passed flux is the flux minus 125, the mean of the
  wavelengths; the flux minus its own low-pass (its mean, 125.85) would be the last list.
\<close>

theorem highpass_science_filters_wavegrid_witness:
  "highpass_science ex_mp (Fin 500000) ex_wave ex_sci = Inr ex_hp
   \<and> (\<exists>width. get_velo_scale ex_mp (ex_wave ! 0) (Fin 500000) = Inr width
         \<and> inplace_sub (ex_sci ! 0) (lowpassfilter ex_mp (ex_wave ! 0) width) = Inr (ex_hp ! 0))
   \<and> ex_hp ! 0 = [Fin 0, Fin 1, Fin (31/10), Fin 1, Fin 0, Fin 0]
   \<and> map2 fsub (ex_sci ! 0) (lowpassfilter ex_mp (ex_sci ! 0) 1)
       = [Fin (- (17/20)), Fin (3/20), Fin (9/4), Fin (3/20), Fin (- (17/20)), Fin (- (17/20))]"
proof -
  have n: "0 < length ex_sci" by (simp add: ex_sci_def)
  from highpass_science_filters_wavegrid [OF ex_highpass n] ex_highpass
  show ?thesis by (simp add: ex_hp_def ex_sci_def ex_mp_def fsub_def np_sum_def)
qed

section \<open>The seed from the archive and the edge weights\<close>

text \<open>
The index that \<^verbatim>\<open>np.argmin\<close> returns on finite values is one of a least value.
\<close>

lemma argmin_fold:
  "length is = length rs \<Longrightarrow>
   foldl (\<lambda>(bi, bv) (i, v). if flt v bv then (i, v) else (bi, bv)) (b, Fin x) (zip is (map Fin rs))
     = (k, w) \<Longrightarrow>
   (\<exists>y. w = Fin y \<and> y \<le> x \<and> (\<forall>r\<in>set rs. y \<le> r)) \<and> ((k, w) = (b, Fin x) \<or> (k, w) \<in> set (zip is (map Fin rs)))"
proof (induction rs arbitrary: "is" b x)
  case Nil
  then show ?case by auto
next
  case (Cons r rs)
  show ?case
  proof (cases "is")
    case Nil
    with Cons.prems show ?thesis by auto
  next
    case (Cons i js)
    show ?thesis
    proof (cases "r < x")
      case True
      with Cons Cons.prems have
        "foldl (\<lambda>(bi, bv) (i, v). if flt v bv then (i, v) else (bi, bv)) (i, Fin r) (zip js (map Fin rs)) = (k, w)"
        by simp
      moreover from Cons Cons.prems have "length js = length rs" by simp
      ultimately show ?thesis using Cons.IH [of js i r] True Cons by auto
    next
      case False
      with Cons Cons.prems have
        "foldl (\<lambda>(bi, bv) (i, v). if flt v bv then (i, v) else (bi, bv)) (b, Fin x) (zip js (map Fin rs)) = (k, w)"
        by simp
      moreover from Cons Cons.prems have "length js = length rs" by simp
      ultimately show ?thesis using Cons.IH [of js b x] False Cons by auto
    qed
  qed
qed

lemma np_argmin_finite:
  assumes "np_argmin (map Fin rs) = Inr k"
  shows "k < length rs \<and> (\<forall>j<length rs. rs ! k \<le> rs ! j)"
proof (cases rs)
  case Nil
  with assms show ?thesis by (simp add: np_argmin_def)
next
  case (Cons r rest)
  have nonan: "\<not> list_ex isnan (map Fin rs)" by (induction rs) simp_all
  obtain w where f: "foldl (\<lambda>(bi, bv) (i, v). if flt v bv then (i, v) else (bi, bv)) (0, Fin r)
            (zip [1..<length rs] (map Fin rest)) = (k, w)"
    using assms Cons nonan unfolding np_argmin_def
    by (cases "foldl (\<lambda>(bi, bv) (i, v). if flt v bv then (i, v) else (bi, bv)) (0, Fin r)
            (zip [1..<length rs] (map Fin rest))") (simp add: )
  have "length [1..<length rs] = length rs - 1" by (simp only: length_upt)
  with Cons have len: "length [1..<length rs] = length rest" by simp
  from argmin_fold [OF len f] obtain y where w: "w = Fin y" and le: "y \<le> r" "\<forall>q\<in>set rest. y \<le> q"
    and mem: "(k, w) = (0, Fin r) \<or> (k, w) \<in> set (zip [1..<length rs] (map Fin rest))"
    by blast
  have all: "\<forall>j<length rs. y \<le> rs ! j"
    using le Cons by (auto simp: nth_Cons split: nat.splits)
  from mem have "k < length rs \<and> rs ! k = y"
  proof
    assume "(k, w) = (0, Fin r)"
    with w Cons show ?thesis by simp
  next
    assume "(k, w) \<in> set (zip [1..<length rs] (map Fin rest))"
    then obtain n where n: "n < length rest" "k = [1..<length rs] ! n" "w = map Fin rest ! n"
      by (auto simp: in_set_zip)
    moreover have "[1..<length rs] ! n = 1 + n"
      using n(1) Cons by (intro nth_upt) simp
    ultimately have k: "k = Suc n" by simp
    from n(1,3) w have "y = rest ! n" by simp
    with k n(1) Cons show ?thesis by simp
  qed
  with all show ?thesis by simp
qed

text \<open>
Claim C4 says that the seed is the archive entry nearest in time. The source takes
  \<^verbatim>\<open>np.argmin(mjdate - mjdate_all)\<close>, without the absolute value, and the least of the
  differences \<open>mjdate - mjdate_all[i]\<close> is at the largest timestamp: whenever the
  timestamps are finite, the seed is the velocity stored with a latest entry of the
  archive, however far that entry is from the exposure.
\<close>

theorem archive_seed_takes_latest:
  assumes "archive_seed (Fin m) (map Fin ts) systemic_all = Inr v"
  shows "\<exists>k<length ts. v = systemic_all ! k \<and> (\<forall>j<length ts. ts ! j \<le> ts ! k)"
proof -
  have eq: "map (\<lambda>t. fsub (Fin m) t) (map Fin ts) = map Fin (map (\<lambda>t. m - t) ts)"
    by (simp add: fsub_def)
  from assms obtain k where k: "np_argmin (map Fin (map (\<lambda>t. m - t) ts)) = Inr k"
    and v: "get_at systemic_all k = Inr v"
    unfolding archive_seed_def eq by (auto elim!: bindrE)
  from np_argmin_finite [OF k] have "k < length ts" "\<forall>j<length ts. ts ! j \<le> ts ! k"
    by auto
  with v show ?thesis by (auto simp: get_at_Inr_iff)
qed

text \<open>
For an exposure at \<open>mjdate = 10\<close> and an archive with timestamps 9 and 20 the seed is the
  velocity stored with timestamp 20, which is ten days away, and not the one stored with
  timestamp 9, one day away.
\<close>

theorem archive_seed_takes_latest_witness:
  "archive_seed (Fin 10) (map Fin [9, 20]) [Fin 100, Fin 200] = Inr (Fin 200)
   \<and> (\<exists>k<length [9, 20 :: real]. Fin 200 = [Fin 100, Fin 200] ! k
         \<and> (\<forall>j<length [9, 20 :: real]. [9, 20] ! j \<le> [9, 20 :: real] ! k))
   \<and> fabs (fsub (Fin 10) (Fin 9)) = Fin 1 \<and> fabs (fsub (Fin 10) (Fin 20)) = Fin 10"
proof -
  have ev: "archive_seed (Fin 10) (map Fin [9, 20]) [Fin 100, Fin 200] = Inr (Fin 200)"
    by (simp add: archive_seed_def np_argmin_def get_at_def fsub_def upt_rec)
  from archive_seed_takes_latest [OF ev] ev show ?thesis by (simp add: fsub_def)
qed

text \<open>
Claim C6, evaluated on an order with wavelengths 100, 110, ..., 140 and a line from 108 to
  127, whose pixel window is 0 to 3. The overlap of the first pixel with the start of the
  line is \<open>(110 - 108) / (110 - 100) = 1/5\<close> and that of the last pixel with its end is
  \<open>1 - (130 - 127) / (140 - 130) = 7/10\<close>. The source leaves \<open>7/10\<close> in the first
  entry of the mask and 1 in the last, and it has overwritten the second wavelength of the
  order with the first.
\<close>

theorem build_weight_mask_overwrites:
  "line_window (two_point_line [Fin 100, Fin 110, Fin 120, Fin 130, Fin 140] (arange 5))
      (Fin 108) (Fin 127) = Inr (0, 3)
   \<and> build_weight_mask [Fin 100, Fin 110, Fin 120, Fin 130, Fin 140] (Fin 108) (Fin 127) 0 3
     = Inr ([Fin (7/10), Fin 1, Fin 1, Fin 1], [Fin 100, Fin 100, Fin 120, Fin 130, Fin 140])
   \<and> fdiv (fsub (Fin 110) (Fin 108)) (fsub (Fin 110) (Fin 100)) = Fin (1/5)
   \<and> fsub (Fin 1) (fdiv (fsub (Fin 130) (Fin 127)) (fsub (Fin 140) (Fin 130))) = Fin (7/10)"
proof -
  have "line_window (two_point_line [Fin 100, Fin 110, Fin 120, Fin 130, Fin 140] (arange 5))
      (Fin 108) (Fin 127) = Inr (0, 3)"
    by (simp add: line_window_def two_point_line_def arange_def fsub_def upt_rec)
  moreover have "build_weight_mask [Fin 100, Fin 110, Fin 120, Fin 130, Fin 140] (Fin 108) (Fin 127) 0 3
     = Inr ([Fin (7/10), Fin 1, Fin 1, Fin 1], [Fin 100, Fin 100, Fin 120, Fin 130, Fin 140])"
    by (simp add: build_weight_mask_def py_get_def py_set_def fgt_def fsub_def Let_def
        eval_nat_numeral)
  ultimately show ?thesis by (simp add: fsub_def)
qed

section \<open>The third-order arrays\<close>

lemma line_loop_third:
  "for_loop (line_step mp env it) st ks = Inr st' \<Longrightarrow> dddv st' = dddv st \<and> dddvrms st' = dddvrms st"
proof (induction ks arbitrary: st)
  case Nil
  then show ?case by simp
next
  case (Cons k ks)
  from Cons.prems obtain mid where step: "line_step mp env it st k = Inr mid"
    and rest: "for_loop (line_step mp env it) mid ks = Inr st'"
    by (auto elim!: bindrE)
  from line_step_frame [OF step] have "dddv mid = dddv st" "dddvrms mid = dddvrms st"
    by (simp_all add: same_but_line_def)
  with Cons.IH [OF rest] show ?case by simp
qed

lemma iteration_body_third:
  assumes "iteration_body mp p wavegrid sci_data blaze berv it s = Inr (s', c)"
  shows "dddv (fit s') = dddv (fit s) \<and> dddvrms (fit s') = dddvrms (fit s)"
proof -
  from assms obtain env nwave where
    "for_loop (line_step mp env it) ((fit s) \<lparr> nwavegrid := nwave \<rparr>)
       [0..<length (ORDER (ref_table (fit s)))] = Inr (fit s')"
    by (rule iteration_body_fit)
  from line_loop_third [OF this] show ?thesis by simp
qed

lemma iterate_third:
  "iterate (iteration_body mp p wavegrid sci_data blaze berv) s its = Inr s' \<Longrightarrow>
   dddv (fit s') = dddv (fit s) \<and> dddvrms (fit s') = dddvrms (fit s)"
proof (induction its arbitrary: s)
  case Nil
  then show ?case by simp
next
  case (Cons it its)
  from Cons.prems obtain mid c where
    step: "iteration_body mp p wavegrid sci_data blaze berv it s = Inr (mid, c)"
    and rest: "(if c then Inr mid else iterate (iteration_body mp p wavegrid sci_data blaze berv) mid its) = Inr s'"
    by (auto elim!: bindrE)
  from iteration_body_third [OF step] Cons.IH [of mid] rest show ?case
    by (cases c) simp_all
qed

lemma compute_rv_result:
  assumes "compute_rv mp p i sci_data mjd berv wavegrid tbl blaze sa ma ew reset = Inr (t, out)"
  obtains sci v st where
    "iterate (iteration_body mp p wavegrid sci blaze berv) (initial_state tbl sci v)
       [0..<COMPUTE_RV_N_ITERATIONS p] = Inr st"
    "DDV t = ddv (fit st)" "DDVRMS t = ddvrms (fit st)" "DDDV t = dddv (fit st)"
    "DDDVRMS t = dddvrms (fit st)" "DVRMS t = dvrms (fit st)"
    "NUM_ITERATIONS out = num_to_converge st"
    "RESET_RV out = (COMPUTE_RV_MAX_N_GOOD_ITERS p \<le> int (num_to_converge st))"
  using assms
  apply (unfold compute_rv_def Let_def)
  apply (erule bindrE)+
  apply (clarsimp split: prod.splits)
  apply (erule bindrE)+
  apply (clarsimp simp: rv_table.defs ref_dict.defs)
  done

text \<open>
Claim C8 says that the outcome of the Bouchy equation for the third derivative is recorded
  in \<open>dddv\<close> and \<open>dddvrms\<close> and written to the columns DDDV and DDDVRMS. In the source
  the third outcome is assigned to \<open>ddv\<close> and \<open>ddvrms\<close> again, and nothing is ever
  assigned to \<open>dddv\<close> and \<open>dddvrms\<close>: whenever \<^verbatim>\<open>compute_rv\<close> returns, the columns
  DDDV and DDDVRMS hold NaN for every line.
\<close>

theorem compute_rv_third_order_never_written:
  assumes "compute_rv mp p i sci_data mjd berv wavegrid tbl blaze sa ma ew reset = Inr (t, out)"
  shows "DDDV t = replicate (length (WAVE_START tbl)) NaN
       \<and> DDDVRMS t = replicate (length (WAVE_START tbl)) NaN"
proof (rule compute_rv_result [OF assms])
  fix sci v st
  assume run: "iterate (iteration_body mp p wavegrid sci blaze berv) (initial_state tbl sci v)
       [0..<COMPUTE_RV_N_ITERATIONS p] = Inr st"
    and t: "DDDV t = dddv (fit st)" "DDDVRMS t = dddvrms (fit st)"
  from iterate_third [OF run] t show ?thesis
    by (simp add: initial_state_def Let_def)
qed

text \<open>
On the small exposure the line is fitted, DDDV and DDDVRMS are NaN, and DDV holds
  \<open>1/45\<close>, the outcome for the third derivative, not \<open>1/90\<close>, the outcome for the
  second.
\<close>

theorem compute_rv_third_order_never_written_witness:
  "DDDV (fst (projr (compute_rv ex_mp ex_p 0 ex_sci (Fin 10) (Fin 0) ex_wave ex_tbl ex_blaze
       [Fin 0] [Fin 0] None True))) = [NaN]
   \<and> DDDVRMS (fst (projr (compute_rv ex_mp ex_p 0 ex_sci (Fin 10) (Fin 0) ex_wave ex_tbl ex_blaze
       [Fin 0] [Fin 0] None True))) = [NaN]
   \<and> DDV (fst (projr (compute_rv ex_mp ex_p 0 ex_sci (Fin 10) (Fin 0) ex_wave ex_tbl ex_blaze
       [Fin 0] [Fin 0] None True))) = [Fin (1/45)]
   \<and> bouchy_equation_line [Fin 2, Fin 1, Fin 2] [Fin 0, Fin (1/10), Fin 0] (Fin 0)
       = Inr (Fin (1/90), Fin 0)
   \<and> bouchy_equation_line [Fin 1, Fin 2, Fin 2] [Fin 0, Fin (1/10), Fin 0] (Fin 0)
       = Inr (Fin (1/45), Fin 0)"
  using compute_rv_third_order_never_written [OF ex_run] ex_run ex_bouchy2 ex_bouchy3
  by (simp add: ex_tbl_def)

section \<open>The reset flag\<close>

text \<open>
Claim C3 says that the exposure counts as converged (reset flag false) exactly when the
  number of iterations used is at most the configured maximum of good iterations. In the
  source the reset flag is raised as soon as the number of iterations reaches that maximum:
  whenever \<^verbatim>\<open>compute_rv\<close> returns, the flag is true exactly when the maximum is less than or
  equal to the number of iterations used.
\<close>

theorem compute_rv_reset_flag:
  assumes "compute_rv mp p i sci_data mjd berv wavegrid tbl blaze sa ma ew reset = Inr (t, out)"
  shows "RESET_RV out \<longleftrightarrow> COMPUTE_RV_MAX_N_GOOD_ITERS p \<le> int (NUM_ITERATIONS out)"
  by (rule compute_rv_result [OF assms]) simp

text \<open>
On the small exposure the first pass meets the convergence test, one iteration is used,
  the maximum of good iterations is one, and the reset flag is raised.
\<close>

theorem compute_rv_reset_flag_witness:
  "RESET_RV (snd (projr (compute_rv ex_mp ex_p 0 ex_sci (Fin 10) (Fin 0) ex_wave ex_tbl ex_blaze
       [Fin 0] [Fin 0] None True)))
   \<and> NUM_ITERATIONS (snd (projr (compute_rv ex_mp ex_p 0 ex_sci (Fin 10) (Fin 0) ex_wave ex_tbl
       ex_blaze [Fin 0] [Fin 0] None True))) = 1
   \<and> COMPUTE_RV_MAX_N_GOOD_ITERS ex_p = 1"
  using compute_rv_reset_flag [OF ex_run] ex_run
  by (simp add: ex_p_def)

section \<open>Lines narrower than the minimum width\<close>



lemma fit_lengths_wave [simp]: "fit_lengths (st \<lparr> nwavegrid := w \<rparr>) = fit_lengths st"
  by (simp add: fit_lengths_def)














section \<open>The sigma threshold and the velocity update\<close>

text \<open>
Claim C2 fails: the lines over the threshold are removed only from the array whose sigma
  is reported, and the robust mean receives all the lines. With the plain mean standing in
  for the robust mean and a threshold of 8, two fits that agree on the only line under the
  threshold and differ on the line over it (a ratio of 100 or of 200) get different
  velocity updates, 101/2 and 201/2.
\<close>

theorem velocity_update_counterexample:
  "map_sum id (\<lambda>r. (sys_rv (fst r), stddev_nsig (fst r)))
      (velocity_update ex_mp ex_p (Fin 0) (ex_state ex_fitted (Fin 0) 0) []
         ((ex_fit True NaN NaN) \<lparr> dv := [Fin 1, Fin 100], dvrms := [Fin 1, Fin 1] \<rparr>))
     = Inr (Fin (101/2), Fin 1)
   \<and> map_sum id (\<lambda>r. (sys_rv (fst r), stddev_nsig (fst r)))
      (velocity_update ex_mp ex_p (Fin 0) (ex_state ex_fitted (Fin 0) 0) []
         ((ex_fit True NaN NaN) \<lparr> dv := [Fin 1, Fin 200], dvrms := [Fin 1, Fin 1] \<rparr>))
     = Inr (Fin (201/2), Fin 1)
   \<and> filter (\<lambda>(d, e). flt (fabs (fdiv d e)) (COMPUTE_LINE_NSIG_THRES ex_p))
        (zip [Fin 1, Fin 100] [Fin 1, Fin 1]) = [(Fin 1, Fin 1)]
   \<and> filter (\<lambda>(d, e). flt (fabs (fdiv d e)) (COMPUTE_LINE_NSIG_THRES ex_p))
        (zip [Fin 1, Fin 200] [Fin 1, Fin 1]) = [(Fin 1, Fin 1)]"
  by (simp add: velocity_update_def ex_state_def ex_fit_def ex_mp_def ex_p_def np_binop_def
      np_sum_def Let_def)

text \<open>
Claim C2, amended. The sigma threshold acts on the reported spread only: changing it
  changes nothing in what \<^verbatim>\<open>compute_rv\<close> returns or raises except the output RMSRATIO. In
  every pass the velocity update added to the trial velocity is the first component of
  \<^verbatim>\<open>odd_ratio_mean\<close> applied to the complete arrays \<open>dv\<close> and \<open>dvrms\<close>, the convergence
  check compares it with the second component, and the reported spread is the sigma of the
  finite ratios \<open>dv / dvrms\<close> under the threshold.
\<close>

theorem threshold_only_affects_rmsratio:
  "map_sum id without_rmsratio
     (compute_rv mp (p \<lparr> COMPUTE_LINE_NSIG_THRES := t \<rparr>) i sci_data mjd berv wavegrid tbl blaze sa ma
        ew reset)
   = map_sum id without_rmsratio
     (compute_rv mp p i sci_data mjd berv wavegrid tbl blaze sa ma ew reset)
   \<and> (velocity_update mp p berv s rows fs = Inr (s', stop) \<longrightarrow>
        sys_rv s' = fadd (sys_rv s) (fst (odd_ratio_mean mp (dv fs) (dvrms fs)))
        \<and> stop = flt (fabs (fst (odd_ratio_mean mp (dv fs) (dvrms fs))))
                   (fmul (COMPUTE_RV_BULK_ERROR_CONVERGENCE p)
                      (snd (odd_ratio_mean mp (dv fs) (dvrms fs))))
        \<and> stddev_nsig s' = estimate_sigma mp
             (filter (\<lambda>x. flt (fabs x) (COMPUTE_LINE_NSIG_THRES p))
                (filter isfinite (projr (np_binop fdiv (dv fs) (dvrms fs))))))"
proof (intro conjI impI)
  show "map_sum id without_rmsratio
     (compute_rv mp (p \<lparr> COMPUTE_LINE_NSIG_THRES := t \<rparr>) i sci_data mjd berv wavegrid tbl blaze sa ma
        ew reset)
   = map_sum id without_rmsratio
     (compute_rv mp p i sci_data mjd berv wavegrid tbl blaze sa ma ew reset)"
    by (rule compute_rv_thres)
next
  assume a: "velocity_update mp p berv s rows fs = Inr (s', stop)"
  then obtain nsig where n: "np_binop fdiv (dv fs) (dvrms fs) = Inr nsig"
    by (auto simp: velocity_update_def elim!: bindrE)
  from a n show "sys_rv s' = fadd (sys_rv s) (fst (odd_ratio_mean mp (dv fs) (dvrms fs)))"
    by (auto simp: velocity_update_def Let_def split: prod.splits)
  from a n show "stop = flt (fabs (fst (odd_ratio_mean mp (dv fs) (dvrms fs))))
                   (fmul (COMPUTE_RV_BULK_ERROR_CONVERGENCE p)
                      (snd (odd_ratio_mean mp (dv fs) (dvrms fs))))"
    by (auto simp: velocity_update_def Let_def split: prod.splits)
  from a n show "stddev_nsig s' = estimate_sigma mp
             (filter (\<lambda>x. flt (fabs x) (COMPUTE_LINE_NSIG_THRES p))
                (filter isfinite (projr (np_binop fdiv (dv fs) (dvrms fs)))))"
    by (auto simp: velocity_update_def Let_def split: prod.splits)
qed

text \<open>
On the small exposure with another threshold, and on a fit with a line over the
  threshold.
\<close>

theorem threshold_only_affects_rmsratio_witness:
  "map_sum id without_rmsratio
     (compute_rv ex_mp (ex_p \<lparr> COMPUTE_LINE_NSIG_THRES := Fin 1 \<rparr>) 0 ex_sci (Fin 10) (Fin 0) ex_wave
        ex_tbl ex_blaze [Fin 0] [Fin 0] None True)
   = map_sum id without_rmsratio
     (compute_rv ex_mp ex_p 0 ex_sci (Fin 10) (Fin 0) ex_wave ex_tbl ex_blaze [Fin 0] [Fin 0] None True)
   \<and> velocity_update ex_mp ex_p (Fin 0) (ex_state ex_fitted (Fin 0) 0) []
         ((ex_fit True NaN NaN) \<lparr> dv := [Fin 1, Fin 100], dvrms := [Fin 1, Fin 1] \<rparr>)
      = Inr (\<lparr> fit = (ex_fit True NaN NaN) \<lparr> dv := [Fin 1, Fin 100], dvrms := [Fin 1, Fin 1] \<rparr>,
               sys_rv = Fin (101/2), rv_final = [Fin 1, Fin 100], num_to_converge = 1,
               stddev_nsig = Fin 1, rms = [] \<rparr>, False)
   \<and> odd_ratio_mean ex_mp [Fin 1, Fin 100] [Fin 1, Fin 1] = (Fin (101/2), Fin 1)"
proof -
  let ?fs = "(ex_fit True NaN NaN) \<lparr> dv := [Fin 1, Fin 100], dvrms := [Fin 1, Fin 1] \<rparr>"
  let ?s' = "\<lparr> fit = ?fs, sys_rv = Fin (101/2), rv_final = [Fin 1, Fin 100], num_to_converge = 1,
               stddev_nsig = Fin 1, rms = [] \<rparr>"
  have ev: "velocity_update ex_mp ex_p (Fin 0) (ex_state ex_fitted (Fin 0) 0) [] ?fs = Inr (?s', False)"
    by (simp add: velocity_update_def ex_state_def ex_fit_def ex_mp_def ex_p_def np_binop_def
        np_sum_def fsub_def Let_def)
  have orm: "odd_ratio_mean ex_mp [Fin 1, Fin 100] [Fin 1, Fin 1] = (Fin (101/2), Fin 1)"
    by (simp add: ex_mp_def np_sum_def)
  from threshold_only_affects_rmsratio [where mp = ex_mp and p = ex_p and t = "Fin 1" and i = 0
      and sci_data = ex_sci and mjd = "Fin 10" and berv = "Fin 0" and wavegrid = ex_wave
      and tbl = ex_tbl and blaze = ex_blaze and sa = "[Fin 0]" and ma = "[Fin 0]" and ew = None
      and reset = True and s = "ex_state ex_fitted (Fin 0) 0" and rows = "[]" and fs = ?fs
      and s' = ?s' and stop = False]
    ev orm
  show ?thesis by simp
qed

end
